theory Spec2Isabelle
  imports Main
begin

section \<open>Python strings\<close>

text \<open>
  A Python \<open>str\<close> is a sequence of Unicode code points, and \<open>len\<close> counts code points.
  The texts of this program are Russian, so a string is modelled as the list of its code
  points; \<open>of_str\<close> embeds an ASCII literal.
\<close>

type_synonym pystr = "nat list"

definition of_str :: "string \<Rightarrow> pystr" where
  "of_str s = map of_char s"

text \<open>The characters \<open>str.isspace\<close> accepts, which \<open>strip\<close> and \<open>rstrip\<close> remove.\<close>

definition is_space :: "nat \<Rightarrow> bool" where
  "is_space c \<longleftrightarrow>
     (9 \<le> c \<and> c \<le> 13) \<or> (28 \<le> c \<and> c \<le> 32) \<or> c = 133 \<or> c = 160 \<or> c = 5760 \<or>
     (8192 \<le> c \<and> c \<le> 8202) \<or> c = 8232 \<or> c = 8233 \<or> c = 8239 \<or> c = 8287 \<or> c = 12288"

definition lstrip :: "pystr \<Rightarrow> pystr" where
  "lstrip s = dropWhile is_space s"

definition rstrip :: "pystr \<Rightarrow> pystr" where
  "rstrip s = rev (dropWhile is_space (rev s))"

definition strip :: "pystr \<Rightarrow> pystr" where
  "strip s = rstrip (lstrip s)"

text \<open>The line boundaries of \<open>str.splitlines\<close>; a carriage return followed by a line feed
  is one boundary, and a boundary at the very end opens no further line.\<close>

definition is_linebreak :: "nat \<Rightarrow> bool" where
  "is_linebreak c \<longleftrightarrow>
     (10 \<le> c \<and> c \<le> 13) \<or> (28 \<le> c \<and> c \<le> 30) \<or> c = 133 \<or> c = 8232 \<or> c = 8233"

fun splitlines_from :: "pystr \<Rightarrow> pystr \<Rightarrow> pystr list" where
  "splitlines_from cur [] = (if cur = [] then [] else [rev cur])"
| "splitlines_from cur [c] = (if is_linebreak c then [rev cur] else [rev (c # cur)])"
| "splitlines_from cur (c # d # cs) =
     (if c = 13 \<and> d = 10 then rev cur # splitlines_from [] cs
      else if is_linebreak c then rev cur # splitlines_from [] (d # cs)
      else splitlines_from (c # cur) (d # cs))"

definition splitlines :: "pystr \<Rightarrow> pystr list" where
  "splitlines s = splitlines_from [] s"

text \<open>\<open>sep.join(parts)\<close>.\<close>

fun join :: "pystr \<Rightarrow> pystr list \<Rightarrow> pystr" where
  "join sep [] = []"
| "join sep [x] = x"
| "join sep (x # y # ys) = x @ sep @ join sep (y # ys)"

text \<open>\<open>s.split(c)\<close> for a one-character separator: every occurrence splits.\<close>

fun split_on :: "nat \<Rightarrow> pystr \<Rightarrow> pystr list" where
  "split_on sep [] = [[]]"
| "split_on sep (c # cs) =
     (if c = sep then [] # split_on sep cs
      else (case split_on sep cs of [] \<Rightarrow> [[c]] | p # ps \<Rightarrow> (c # p) # ps))"

text \<open>\<open>s.split(c, 1)\<close> where \<open>c\<close> occurs in \<open>s\<close>: the text before the first occurrence
  and the text after it.\<close>

definition split_once :: "nat \<Rightarrow> pystr \<Rightarrow> pystr \<times> pystr" where
  "split_once sep s = (takeWhile (\<lambda>c. c \<noteq> sep) s, drop 1 (dropWhile (\<lambda>c. c \<noteq> sep) s))"

definition startswith :: "pystr \<Rightarrow> pystr \<Rightarrow> bool" where
  "startswith s p \<longleftrightarrow> take (length p) s = p"

text \<open>\<open>s[:n]\<close>: a negative bound counts from the end of the string.\<close>

definition slice_to :: "pystr \<Rightarrow> int \<Rightarrow> pystr" where
  "slice_to s n = (if 0 \<le> n then take (nat n) s else take (length s - nat (- n)) s)"

text \<open>\<open>str(n)\<close> of an integer: its decimal digits, with a minus sign when negative.\<close>

function str_nat :: "nat \<Rightarrow> pystr" where
  "str_nat n = (if n < 10 then [48 + n] else str_nat (n div 10) @ [48 + n mod 10])"
  by pat_completeness auto
termination
  by (relation "measure id") auto

declare str_nat.simps [simp del]

definition str_int :: "int \<Rightarrow> pystr" where
  "str_int i = (if i < 0 then 45 # str_nat (nat (- i)) else str_nat (nat i))"

text \<open>
  \<open>int(s)\<close> of a string is a builtin of the interpreter: which characters it reads as
  decimal digits (the ASCII digits and those of other scripts) and how many digits it
  accepts are the interpreter's, not this program's. So the conversion is a parameter
  \<open>to_int\<close> of every function that calls \<open>int\<close>; \<open>None\<close> is the builtin's \<open>ValueError\<close>.
\<close>

type_synonym int_builtin = "pystr \<Rightarrow> int option"

text \<open>The ASCII digits \<open>0\<close> to \<open>9\<close>.\<close>

definition is_digit :: "nat \<Rightarrow> bool" where
  "is_digit c \<longleftrightarrow> 48 \<le> c \<and> c \<le> 57"

section \<open>The unified text source (content\_source.py)\<close>

subsection \<open>Key-value blocks\<close>

text \<open>
  \<open>parse_key_values\<close>: a dictionary from the lines of a block. Blank lines, comment lines
  and lines without \<open>=\<close> are skipped; the first \<open>=\<close> splits key from value; a later
  line overwrites an earlier one with the same key.
\<close>

type_synonym kv = "pystr \<rightharpoonup> pystr"

definition kv_line :: "kv \<Rightarrow> pystr \<Rightarrow> kv" where
  "kv_line result line =
     (let stripped = strip line in
      if stripped = [] \<or> startswith stripped (of_str ''#'') then result
      else if 61 \<notin> set stripped then result
      else (case split_once 61 stripped of
              (key, val) \<Rightarrow> result(strip key \<mapsto> strip val)))"

definition parse_key_values :: "pystr \<Rightarrow> kv" where
  "parse_key_values block = foldl kv_line Map.empty (splitlines block)"

text \<open>\<open>kv.get(key, default)\<close>.\<close>

definition get_or :: "kv \<Rightarrow> pystr \<Rightarrow> pystr \<Rightarrow> pystr" where
  "get_or m k d = (case m k of None \<Rightarrow> d | Some v \<Rightarrow> v)"

text \<open>\<open>split_semicolon_list\<close>: \<open>None\<close> and the empty string give the empty list.\<close>

definition split_semicolon_list :: "pystr option \<Rightarrow> pystr list" where
  "split_semicolon_list raw_value =
     (case raw_value of
        None \<Rightarrow> []
      | Some v \<Rightarrow>
          if v = [] then []
          else map strip (filter (\<lambda>item. strip item \<noteq> []) (split_on 59 v)))"

subsection \<open>Segment records\<close>

text \<open>The dictionary that \<open>parse_segments\<close> builds for one record, key by key.\<close>

record segment =
  sr_segment_id :: pystr
  sr_name :: pystr
  sr_who :: pystr
  sr_job_to_be_done :: pystr
  sr_pains :: "pystr list"
  sr_triggers :: "pystr list"
  sr_taboos :: "pystr list"
  sr_tone_hint :: pystr
  sr_cta_style :: pystr
  sr_example_offer_adaptations :: "pystr list"

definition segment_of_kv :: "kv \<Rightarrow> segment" where
  "segment_of_kv m =
     \<lparr> sr_segment_id = get_or m (of_str ''id'') [],
       sr_name = get_or m (of_str ''name'') [],
       sr_who = get_or m (of_str ''who'') [],
       sr_job_to_be_done = get_or m (of_str ''job'') (get_or m (of_str ''job_to_be_done'') []),
       sr_pains = split_semicolon_list (m (of_str ''pains'')),
       sr_triggers = split_semicolon_list (m (of_str ''triggers'')),
       sr_taboos = split_semicolon_list (m (of_str ''taboos'')),
       sr_tone_hint = get_or m (of_str ''tone_hint'') [],
       sr_cta_style = get_or m (of_str ''cta_style'') [],
       sr_example_offer_adaptations =
         split_semicolon_list (m (of_str ''example_offer_adaptations'')) \<rparr>"

text \<open>
  The loop of \<open>parse_segments\<close> keeps three variables: the records emitted so far, the
  buffer of the open record, and the flag \<open>in_segment\<close>. One line is one step. A record
  is appended in the \<open>END\<close> branch only, and the function returns \<open>segments\<close> right after
  the loop.
\<close>

record seg_state =
  segments :: "segment list"
  buffer :: "pystr list"
  in_segment :: bool

definition seg_step :: "seg_state \<Rightarrow> pystr \<Rightarrow> seg_state" where
  "seg_step st line =
     (let stripped = strip line in
      if stripped = [] \<or> startswith stripped (of_str ''#'') then st
      else if stripped = of_str ''SEGMENT'' then st\<lparr> buffer := [], in_segment := True \<rparr>
      else if stripped = of_str ''END'' then
        \<lparr> segments =
            (if in_segment st
             then segments st @ [segment_of_kv (parse_key_values (join [10] (buffer st)))]
             else segments st),
          buffer = [], in_segment = False \<rparr>
      else if in_segment st then st\<lparr> buffer := buffer st @ [stripped] \<rparr>
      else st)"

definition seg_init :: seg_state where
  "seg_init = \<lparr> segments = [], buffer = [], in_segment = False \<rparr>"

definition seg_loop :: "pystr list \<Rightarrow> seg_state" where
  "seg_loop ls = foldl seg_step seg_init ls"

definition parse_segments :: "pystr \<Rightarrow> segment list" where
  "parse_segments section_text = segments (seg_loop (splitlines section_text))"

subsection \<open>Format records\<close>

text \<open>
  \<open>parse_formats\<close> has the same loop, and converts the two maxima with \<open>int\<close> when a
  record is closed (\<open>to_int\<close>, the builtin, is the first argument of each function here).
  The conversion is not guarded: its \<open>ValueError\<close> leaves the function. The error
  carries the text that \<open>int\<close> refused. (\<open>KeyError\<close> is the error of a dictionary
  subscript; the format-limit pass below can raise it.)
\<close>

datatype source_error = ValueError pystr | KeyError pystr

record limits =
  headline_max :: int
  body_max :: int

record format =
  fr_format_id :: pystr
  fr_name :: pystr
  fr_limits :: limits
  fr_output_template :: pystr
  fr_notes :: pystr

definition int_of_text :: "int_builtin \<Rightarrow> pystr \<Rightarrow> source_error + int" where
  "int_of_text to_int s = (case to_int s of None \<Rightarrow> Inl (ValueError s) | Some i \<Rightarrow> Inr i)"

text \<open>The instruction string, an f-string around the two maxima (the Russian literals
  are given by their code points).\<close>

definition output_template :: "int \<Rightarrow> int \<Rightarrow> pystr" where
  "output_template h b =
     [1057, 1076, 1077, 1083, 1072, 1081, 32] @ of_str ''headline '' @ [1076, 1086, 32] @
     str_int h @
     [32, 1089, 1080, 1084, 1074, 1086, 1083, 1086, 1074, 32, 1080, 32] @ of_str ''body '' @
     [1076, 1086, 32] @
     str_int b @
     [32, 1089, 1080, 1084, 1074, 1086, 1083, 1086, 1074, 46]"

definition format_of_kv :: "int_builtin \<Rightarrow> kv \<Rightarrow> source_error + format" where
  "format_of_kv to_int m =
     (case int_of_text to_int (get_or m (of_str ''headline_max'') (of_str ''0'')) of
        Inl e \<Rightarrow> Inl e
      | Inr h \<Rightarrow>
          (case int_of_text to_int (get_or m (of_str ''body_max'') (of_str ''0'')) of
             Inl e \<Rightarrow> Inl e
           | Inr b \<Rightarrow>
               Inr \<lparr> fr_format_id = get_or m (of_str ''id'') [],
                     fr_name = get_or m (of_str ''name'') [],
                     fr_limits = \<lparr> headline_max = h, body_max = b \<rparr>,
                     fr_output_template = output_template h b,
                     fr_notes = get_or m (of_str ''notes'') [] \<rparr>))"

record fmt_state =
  formats :: "format list"
  fmt_buffer :: "pystr list"
  in_format :: bool

definition fmt_step :: "int_builtin \<Rightarrow> fmt_state \<Rightarrow> pystr \<Rightarrow> source_error + fmt_state" where
  "fmt_step to_int st line =
     (let stripped = strip line in
      if stripped = [] \<or> startswith stripped (of_str ''#'') then Inr st
      else if stripped = of_str ''FORMAT'' then Inr (st\<lparr> fmt_buffer := [], in_format := True \<rparr>)
      else if stripped = of_str ''END'' then
        (if in_format st then
           (case format_of_kv to_int (parse_key_values (join [10] (fmt_buffer st))) of
              Inl e \<Rightarrow> Inl e
            | Inr f \<Rightarrow> Inr \<lparr> formats = formats st @ [f], fmt_buffer = [], in_format = False \<rparr>)
         else Inr \<lparr> formats = formats st, fmt_buffer = [], in_format = False \<rparr>)
      else if in_format st then Inr (st\<lparr> fmt_buffer := fmt_buffer st @ [stripped] \<rparr>)
      else Inr st)"

fun fmt_loop :: "int_builtin \<Rightarrow> fmt_state \<Rightarrow> pystr list \<Rightarrow> source_error + fmt_state" where
  "fmt_loop to_int st [] = Inr st"
| "fmt_loop to_int st (line # ls) =
     (case fmt_step to_int st line of Inl e \<Rightarrow> Inl e | Inr st' \<Rightarrow> fmt_loop to_int st' ls)"

definition fmt_init :: fmt_state where
  "fmt_init = \<lparr> formats = [], fmt_buffer = [], in_format = False \<rparr>"

definition parse_formats :: "int_builtin \<Rightarrow> pystr \<Rightarrow> source_error + format list" where
  "parse_formats to_int section_text =
     (case fmt_loop to_int fmt_init (splitlines section_text) of
        Inl e \<Rightarrow> Inl e
      | Inr st \<Rightarrow> Inr (formats st))"

subsection \<open>JSON documents\<close>

text \<open>
  What \<open>json.loads\<close> returns. A JSON object is a Python dictionary; it is kept as the list
  of its items and read with \<open>map_of\<close>. A number is an \<open>int\<close> when its text has neither a
  fraction nor an exponent, and a \<open>float\<close> otherwise: a finite binary fraction
  \<open>m * 2 ^ e\<close>, or one of the three special values that \<open>json.loads\<close> also accepts.
  Nothing in this program computes with a float.
\<close>

datatype pyfloat = Finite int int | Infinity | MinusInfinity | NaN

datatype json =
    JNull
  | JBool bool
  | JInt int
  | JFloat pyfloat
  | JStr pystr
  | JArr "json list"
  | JObj "(pystr \<times> json) list"

subsection \<open>The response payload as a dictionary\<close>

text \<open>
  \<open>enforce_char_counts\<close> and \<open>ensure_format_limits\<close> work on the response document as
  nested dictionaries, before it is validated. They read \<open>input_echo.format_id\<close>,
  \<open>segments\<close>, \<open>copies\<close>, \<open>headline\<close>, \<open>body\<close> and \<open>risk_flags\<close>, each with
  \<open>dict.get\<close> or \<open>setdefault\<close>, so each of these keys may be absent (\<open>None\<close>). The values
  have the types of the response document: texts are strings, \<open>segments\<close>, \<open>copies\<close> and
  \<open>risk_flags\<close> are lists. Every other key is carried along untouched (\<open>_other\<close>).
  A payload is a tree as \<open>json.loads\<close> builds it: no dictionary occurs in it twice, so
  an update in place is the same as returning the updated payload.
\<close>

record copy_dict =
  cd_headline :: "pystr option"
  cd_body :: "pystr option"
  cd_char_count :: "json option"
  cd_risk_flags :: "json list option"
  cd_other :: "(pystr \<times> json) list"

record segment_dict =
  sd_copies :: "copy_dict list option"
  sd_other :: "(pystr \<times> json) list"

record echo_dict =
  ed_format_id :: "pystr option"
  ed_other :: "(pystr \<times> json) list"

record payload =
  pd_input_echo :: "echo_dict option"
  pd_segments :: "segment_dict list option"
  pd_other :: "(pystr \<times> json) list"

text \<open>\<open>d.get(key, default)\<close> on an optional entry.\<close>

definition get_default :: "'a option \<Rightarrow> 'a \<Rightarrow> 'a" where
  "get_default v d = (case v of None \<Rightarrow> d | Some x \<Rightarrow> x)"

text \<open>The two nested \<open>for\<close> loops over \<open>payload.get("segments", [])\<close> and
  \<open>segment.get("copies", [])\<close>, with the loop body \<open>f\<close> applied to every copy in place.\<close>

definition for_each_copy :: "(copy_dict \<Rightarrow> copy_dict) \<Rightarrow> payload \<Rightarrow> payload" where
  "for_each_copy f p =
     p\<lparr> pd_segments :=
          map_option (map (\<lambda>s. s\<lparr> sd_copies := map_option (map f) (sd_copies s) \<rparr>))
            (pd_segments p) \<rparr>"

definition count_copy :: "copy_dict \<Rightarrow> copy_dict" where
  "count_copy c =
     (let headline = get_default (cd_headline c) [];
          body = get_default (cd_body c) []
      in c\<lparr> cd_char_count :=
               Some (JObj [(of_str ''headline'', JInt (int (length headline))),
                           (of_str ''body'', JInt (int (length body)))]),
             cd_risk_flags := Some (get_default (cd_risk_flags c) []) \<rparr>)"

definition enforce_char_counts :: "payload \<Rightarrow> payload" where
  "enforce_char_counts p = for_each_copy count_copy p"

text \<open>The risk flag of the format-limit pass; note and suggested fix are fixed Russian
  sentences, given by their code points.\<close>

definition overflow_note :: pystr where
  "overflow_note =
     [1058, 1077, 1082, 1089, 1090, 32, 1073, 1099, 1083, 32, 1072, 1074, 1090, 1086, 1084,
      1072, 1090, 1080, 1095, 1077, 1089, 1082, 1080, 32, 1091, 1082, 1086, 1088, 1086, 1095,
      1077, 1085, 32, 1087, 1086, 1076, 32, 1083, 1080, 1084, 1080, 1090, 32, 1092, 1086,
      1088, 1084, 1072, 1090, 1072, 46]"

definition overflow_fix :: pystr where
  "overflow_fix =
     [1057, 1086, 1082, 1088, 1072, 1090, 1080, 1090, 1100, 32, 1092, 1086, 1088, 1084, 1091,
      1083, 1080, 1088, 1086, 1074, 1082, 1091, 32, 1074, 1088, 1091, 1095, 1085, 1091, 1102,
      32, 1080, 32, 1089, 1086, 1093, 1088, 1072, 1085, 1080, 1090, 1100, 32, 1082, 1083,
      1102, 1095, 1077, 1074, 1091, 1102, 32, 1084, 1099, 1089, 1083, 1100, 32, 1073, 1077,
      1079, 32, 1087, 1086, 1090, 1077, 1088, 1080, 32, 1089, 1084, 1099, 1089, 1083, 1072,
      46]"

definition overflow_flag :: json where
  "overflow_flag =
     JObj [(of_str ''type'', JStr (of_str ''format_overflow'')),
           (of_str ''note'', JStr overflow_note),
           (of_str ''suggest_fix'', JStr overflow_fix)]"

text \<open>The body of the loop of \<open>ensure_format_limits\<close> for one copy. The body is compared
  and cut after the headline; both read the copy as it was when the iteration began.\<close>

definition limit_copy :: "int \<Rightarrow> int \<Rightarrow> copy_dict \<Rightarrow> copy_dict" where
  "limit_copy hmax bmax c =
     (let headline = get_default (cd_headline c) [];
          body = get_default (cd_body c) [];
          c1 = (if int (length headline) > hmax
                then c\<lparr> cd_headline := Some (rstrip (slice_to headline hmax)) \<rparr> else c);
          c2 = (if int (length body) > bmax
                then c1\<lparr> cd_body := Some (rstrip (slice_to body bmax)) \<rparr> else c1);
          overflow = (int (length headline) > hmax \<or> int (length body) > bmax)
      in if overflow
         then c2\<lparr> cd_risk_flags := Some (get_default (cd_risk_flags c2) [] @ [overflow_flag]) \<rparr>
         else c2)"

text \<open>
  \<open>format_limits\<close> is a dictionary from format id to a dictionary of integers. \<open>not limits\<close>
  holds for a missing entry and for an empty one; the two subscripts raise \<open>KeyError\<close> on
  an entry without the key, before any copy is touched.
\<close>

type_synonym format_limits = "pystr \<Rightarrow> (pystr \<times> int) list option"

definition echoed_format_id :: "payload \<Rightarrow> pystr" where
  "echoed_format_id p =
     (case pd_input_echo p of None \<Rightarrow> [] | Some ie \<Rightarrow> get_default (ed_format_id ie) [])"

definition ensure_format_limits :: "payload \<Rightarrow> format_limits \<Rightarrow> source_error + payload" where
  "ensure_format_limits p fl =
     (case fl (echoed_format_id p) of
        None \<Rightarrow> Inr p
      | Some lims \<Rightarrow>
          if lims = [] then Inr p
          else (case map_of lims (of_str ''headline_max'') of
                  None \<Rightarrow> Inl (KeyError (of_str ''headline_max''))
                | Some hmax \<Rightarrow>
                    (case map_of lims (of_str ''body_max'') of
                       None \<Rightarrow> Inl (KeyError (of_str ''body_max''))
                     | Some bmax \<Rightarrow>
                         Inr (enforce_char_counts (for_each_copy (limit_copy hmax bmax) p)))))"

section \<open>The response schema (schemas.py)\<close>

subsection \<open>Validation results\<close>

text \<open>
  \<open>Model.model_validate(obj)\<close> returns the model or raises one \<open>ValidationError\<close> that lists
  every failing field with its location. A result is the list of errors (\<open>Inl\<close>) or the
  value (\<open>Inr\<close>); the fields of a model are validated in declaration order and their errors
  are concatenated.
\<close>

datatype loc_item = Key pystr | Index nat

datatype error_type =
    missing
  | string_type
  | int_type
  | greater_than_equal int
  | less_than_equal int
  | list_type
  | model_type
  | literal_error
  | string_pattern_mismatch
  | value_error pystr

type_synonym errors = "(loc_item list \<times> error_type) list"

type_synonym 'a validated = "errors + 'a"

definition fail :: "error_type \<Rightarrow> 'a validated" where
  "fail e = Inl [([], e)]"

text \<open>An error of a field or of a list item is located under that field or index.\<close>

definition under :: "loc_item \<Rightarrow> 'a validated \<Rightarrow> 'a validated" where
  "under i r = (case r of Inl es \<Rightarrow> Inl (map (\<lambda>(l, e). (i # l, e)) es) | Inr a \<Rightarrow> Inr a)"

text \<open>One more field for a constructor: both sides are evaluated and the errors of both
  are kept.\<close>

definition ap :: "('a \<Rightarrow> 'b) validated \<Rightarrow> 'a validated \<Rightarrow> 'b validated" where
  "ap f x =
     (case f of
        Inr g \<Rightarrow> (case x of Inr a \<Rightarrow> Inr (g a) | Inl es \<Rightarrow> Inl es)
      | Inl es1 \<Rightarrow> (case x of Inr a \<Rightarrow> Inl es1 | Inl es2 \<Rightarrow> Inl (es1 @ es2)))"

text \<open>A field without a default is required; a field with \<open>default_factory=list\<close> is the
  empty list when the key is absent.\<close>

definition field :: "pystr \<Rightarrow> (json \<Rightarrow> 'a validated) \<Rightarrow> (pystr \<times> json) list \<Rightarrow> 'a validated" where
  "field k v obj =
     (case map_of obj k of None \<Rightarrow> Inl [([Key k], missing)] | Some j \<Rightarrow> under (Key k) (v j))"

definition field_default ::
  "pystr \<Rightarrow> (json \<Rightarrow> 'a validated) \<Rightarrow> 'a \<Rightarrow> (pystr \<times> json) list \<Rightarrow> 'a validated" where
  "field_default k v d obj =
     (case map_of obj k of None \<Rightarrow> Inr d | Some j \<Rightarrow> under (Key k) (v j))"

subsection \<open>Field types\<close>

text \<open>
  A \<open>str\<close> field takes a JSON string and nothing else. An \<open>int\<close> field takes what the
  validation library converts to an integer; which values besides JSON integers it
  converts is the library's choice, so the conversion \<open>as_int\<close> is a parameter of every
  validator below (\<open>None\<close>: not an integer). \<open>strict_int\<close> is the conversion that accepts
  JSON integers only.
\<close>

type_synonym int_conversion = "json \<Rightarrow> int option"

definition strict_int :: int_conversion where
  "strict_int j = (case j of JInt i \<Rightarrow> Some i | _ \<Rightarrow> None)"

definition v_str :: "json \<Rightarrow> pystr validated" where
  "v_str j = (case j of JStr s \<Rightarrow> Inr s | _ \<Rightarrow> fail string_type)"

definition v_int :: "int_conversion \<Rightarrow> json \<Rightarrow> int validated" where
  "v_int as_int j = (case as_int j of None \<Rightarrow> fail int_type | Some i \<Rightarrow> Inr i)"

text \<open>\<open>Field(ge=lo)\<close> and \<open>Field(ge=lo, le=hi)\<close>.\<close>

definition v_int_ge :: "int_conversion \<Rightarrow> int \<Rightarrow> json \<Rightarrow> int validated" where
  "v_int_ge as_int lo j =
     (case v_int as_int j of
        Inl es \<Rightarrow> Inl es
      | Inr i \<Rightarrow> if lo \<le> i then Inr i else fail (greater_than_equal lo))"

definition v_int_range :: "int_conversion \<Rightarrow> int \<Rightarrow> int \<Rightarrow> json \<Rightarrow> int validated" where
  "v_int_range as_int lo hi j =
     (case v_int_ge as_int lo j of
        Inl es \<Rightarrow> Inl es
      | Inr i \<Rightarrow> if i \<le> hi then Inr i else fail (less_than_equal hi))"

fun list_items :: "(json \<Rightarrow> 'a validated) \<Rightarrow> nat \<Rightarrow> json list \<Rightarrow> 'a list validated" where
  "list_items v i [] = Inr []"
| "list_items v i (j # js) = ap (ap (Inr Cons) (under (Index i) (v j))) (list_items v (Suc i) js)"

definition v_list :: "(json \<Rightarrow> 'a validated) \<Rightarrow> json \<Rightarrow> 'a list validated" where
  "v_list v j = (case j of JArr js \<Rightarrow> list_items v 0 js | _ \<Rightarrow> fail list_type)"

definition v_model :: "((pystr \<times> json) list \<Rightarrow> 'a validated) \<Rightarrow> json \<Rightarrow> 'a validated" where
  "v_model f j = (case j of JObj obj \<Rightarrow> f obj | _ \<Rightarrow> fail model_type)"

text \<open>An after-validator that cannot fail, applied to a model whose fields validated.\<close>

definition then_apply :: "('a \<Rightarrow> 'a) \<Rightarrow> 'a validated \<Rightarrow> 'a validated" where
  "then_apply f r = (case r of Inl es \<Rightarrow> Inl es | Inr a \<Rightarrow> Inr (f a))"

subsection \<open>The models\<close>

datatype tone = friendly | neutral | formal | bold

datatype priority = P0 | P1 | P2

definition v_tone :: "json \<Rightarrow> tone validated" where
  "v_tone j =
     (if j = JStr (of_str ''friendly'') then Inr friendly
      else if j = JStr (of_str ''neutral'') then Inr neutral
      else if j = JStr (of_str ''formal'') then Inr formal
      else if j = JStr (of_str ''bold'') then Inr bold
      else fail literal_error)"

definition v_priority :: "json \<Rightarrow> priority validated" where
  "v_priority j =
     (if j = JStr (of_str ''P0'') then Inr P0
      else if j = JStr (of_str ''P1'') then Inr P1
      else if j = JStr (of_str ''P2'') then Inr P2
      else fail literal_error)"

record CharCount =
  cc_headline :: int
  cc_body :: int

record RiskFlag =
  rf_type :: pystr
  rf_note :: pystr
  rf_suggest_fix :: pystr

record CopyVariant =
  cv_headline :: pystr
  cv_body :: pystr
  cv_cta :: pystr
  cv_rationale :: pystr
  cv_char_count :: CharCount
  cv_risk_flags :: "RiskFlag list"

record SegmentOutput =
  so_segment_id :: pystr
  so_segment_name :: pystr
  so_core_insight :: pystr
  so_trigger :: pystr
  so_angle :: pystr
  so_copies :: "CopyVariant list"
  so_differences_note :: pystr

record QuestionItem =
  qi_q :: pystr
  qi_why :: pystr
  qi_priority :: priority

record GlobalRiskItem =
  gr_risk :: pystr
  gr_impact :: pystr
  gr_mitigation :: pystr

record ExportHints =
  eh_how_to_use :: "pystr list"
  eh_ab_test_suggestions :: "pystr list"

record ExecSummary =
  es_for_marketer :: pystr
  es_for_non_tech_manager :: pystr

record InputEcho =
  ie_base_text :: pystr
  ie_tone :: tone
  ie_format_id :: pystr
  ie_variants_per_segment :: int
  ie_constraints :: "pystr list"
  ie_assumptions :: "pystr list"

record SegCraftResponse =
  r_version :: pystr
  r_input_echo :: InputEcho
  r_questions :: "QuestionItem list"
  r_segments :: "SegmentOutput list"
  r_global_risks :: "GlobalRiskItem list"
  r_export_hints :: ExportHints
  r_exec_summary :: ExecSummary

definition CharCount_validate :: "int_conversion \<Rightarrow> json \<Rightarrow> CharCount validated" where
  "CharCount_validate as_int =
     v_model (\<lambda>obj.
       ap (ap (Inr (\<lambda>h b. \<lparr> cc_headline = h, cc_body = b \<rparr>))
         (field (of_str ''headline'') (v_int_ge as_int 0) obj))
         (field (of_str ''body'') (v_int_ge as_int 0) obj))"

definition RiskFlag_validate :: "json \<Rightarrow> RiskFlag validated" where
  "RiskFlag_validate =
     v_model (\<lambda>obj.
       ap (ap (ap (Inr (\<lambda>t n f. \<lparr> rf_type = t, rf_note = n, rf_suggest_fix = f \<rparr>))
         (field (of_str ''type'') v_str obj))
         (field (of_str ''note'') v_str obj))
         (field (of_str ''suggest_fix'') v_str obj))"

text \<open>\<open>CopyVariant.sync_char_count\<close>, the after-validator of a copy variant.\<close>

definition sync_char_count :: "CopyVariant \<Rightarrow> CopyVariant" where
  "sync_char_count c =
     c\<lparr> cv_char_count :=
          \<lparr> cc_headline = int (length (cv_headline c)), cc_body = int (length (cv_body c)) \<rparr> \<rparr>"

definition CopyVariant_fields :: "int_conversion \<Rightarrow> (pystr \<times> json) list \<Rightarrow> CopyVariant validated" where
  "CopyVariant_fields as_int obj =
     ap (ap (ap (ap (ap (ap
       (Inr (\<lambda>h b c r cc rf.
          \<lparr> cv_headline = h, cv_body = b, cv_cta = c, cv_rationale = r,
            cv_char_count = cc, cv_risk_flags = rf \<rparr>))
       (field (of_str ''headline'') v_str obj))
       (field (of_str ''body'') v_str obj))
       (field (of_str ''cta'') v_str obj))
       (field (of_str ''rationale'') v_str obj))
       (field (of_str ''char_count'') (CharCount_validate as_int) obj))
       (field_default (of_str ''risk_flags'') (v_list RiskFlag_validate) [] obj)"

definition CopyVariant_validate :: "int_conversion \<Rightarrow> json \<Rightarrow> CopyVariant validated" where
  "CopyVariant_validate as_int =
     v_model (\<lambda>obj. then_apply sync_char_count (CopyVariant_fields as_int obj))"

definition SegmentOutput_validate :: "int_conversion \<Rightarrow> json \<Rightarrow> SegmentOutput validated" where
  "SegmentOutput_validate as_int =
     v_model (\<lambda>obj.
       ap (ap (ap (ap (ap (ap (ap
         (Inr (\<lambda>i n c t a cs d.
            \<lparr> so_segment_id = i, so_segment_name = n, so_core_insight = c, so_trigger = t,
              so_angle = a, so_copies = cs, so_differences_note = d \<rparr>))
         (field (of_str ''segment_id'') v_str obj))
         (field (of_str ''segment_name'') v_str obj))
         (field (of_str ''core_insight'') v_str obj))
         (field (of_str ''trigger'') v_str obj))
         (field (of_str ''angle'') v_str obj))
         (field (of_str ''copies'') (v_list (CopyVariant_validate as_int)) obj))
         (field (of_str ''differences_note'') v_str obj))"

definition QuestionItem_validate :: "json \<Rightarrow> QuestionItem validated" where
  "QuestionItem_validate =
     v_model (\<lambda>obj.
       ap (ap (ap (Inr (\<lambda>q w p. \<lparr> qi_q = q, qi_why = w, qi_priority = p \<rparr>))
         (field (of_str ''q'') v_str obj))
         (field (of_str ''why'') v_str obj))
         (field (of_str ''priority'') v_priority obj))"

definition GlobalRiskItem_validate :: "json \<Rightarrow> GlobalRiskItem validated" where
  "GlobalRiskItem_validate =
     v_model (\<lambda>obj.
       ap (ap (ap (Inr (\<lambda>r i m. \<lparr> gr_risk = r, gr_impact = i, gr_mitigation = m \<rparr>))
         (field (of_str ''risk'') v_str obj))
         (field (of_str ''impact'') v_str obj))
         (field (of_str ''mitigation'') v_str obj))"

definition ExportHints_validate :: "json \<Rightarrow> ExportHints validated" where
  "ExportHints_validate =
     v_model (\<lambda>obj.
       ap (ap (Inr (\<lambda>h a. \<lparr> eh_how_to_use = h, eh_ab_test_suggestions = a \<rparr>))
         (field (of_str ''how_to_use'') (v_list v_str) obj))
         (field (of_str ''ab_test_suggestions'') (v_list v_str) obj))"

definition ExecSummary_validate :: "json \<Rightarrow> ExecSummary validated" where
  "ExecSummary_validate =
     v_model (\<lambda>obj.
       ap (ap (Inr (\<lambda>m n. \<lparr> es_for_marketer = m, es_for_non_tech_manager = n \<rparr>))
         (field (of_str ''for_marketer'') v_str obj))
         (field (of_str ''for_non_tech_manager'') v_str obj))"

definition InputEcho_validate :: "int_conversion \<Rightarrow> json \<Rightarrow> InputEcho validated" where
  "InputEcho_validate as_int =
     v_model (\<lambda>obj.
       ap (ap (ap (ap (ap (ap
         (Inr (\<lambda>b t f v c a.
            \<lparr> ie_base_text = b, ie_tone = t, ie_format_id = f, ie_variants_per_segment = v,
              ie_constraints = c, ie_assumptions = a \<rparr>))
         (field (of_str ''base_text'') v_str obj))
         (field (of_str ''tone'') v_tone obj))
         (field (of_str ''format_id'') v_str obj))
         (field (of_str ''variants_per_segment'') (v_int_range as_int 1 3) obj))
         (field_default (of_str ''constraints'') (v_list v_str) [] obj))
         (field_default (of_str ''assumptions'') (v_list v_str) [] obj))"

text \<open>
  The \<open>version\<close> field carries the pattern \<open>^\d+\.\d+$\<close>. Which characters \<open>\d\<close> matches and
  where \<open>$\<close> matches belong to the regular-expression engine of the validation library, so
  the matcher \<open>version_ok\<close> is a parameter. \<open>ascii_version\<close> accepts ASCII digits, a dot
  and ASCII digits.
\<close>

definition v_version :: "(pystr \<Rightarrow> bool) \<Rightarrow> json \<Rightarrow> pystr validated" where
  "v_version version_ok j =
     (case v_str j of
        Inl es \<Rightarrow> Inl es
      | Inr s \<Rightarrow> if version_ok s then Inr s else fail string_pattern_mismatch)"

definition ascii_version :: "pystr \<Rightarrow> bool" where
  "ascii_version s =
     (let major = takeWhile is_digit s; rest = dropWhile is_digit s
      in major \<noteq> [] \<and> take 1 rest = [46] \<and> drop 1 rest \<noteq> [] \<and> list_all is_digit (drop 1 rest))"

definition SegCraftResponse_fields ::
  "int_conversion \<Rightarrow> (pystr \<Rightarrow> bool) \<Rightarrow> (pystr \<times> json) list \<Rightarrow> SegCraftResponse validated" where
  "SegCraftResponse_fields as_int version_ok obj =
     ap (ap (ap (ap (ap (ap (ap
       (Inr (\<lambda>v i q s g e x.
          \<lparr> r_version = v, r_input_echo = i, r_questions = q, r_segments = s,
            r_global_risks = g, r_export_hints = e, r_exec_summary = x \<rparr>))
       (field (of_str ''version'') (v_version version_ok) obj))
       (field (of_str ''input_echo'') (InputEcho_validate as_int) obj))
       (field_default (of_str ''questions'') (v_list QuestionItem_validate) [] obj))
       (field (of_str ''segments'') (v_list (SegmentOutput_validate as_int)) obj))
       (field_default (of_str ''global_risks'') (v_list GlobalRiskItem_validate) [] obj))
       (field (of_str ''export_hints'') ExportHints_validate obj))
       (field (of_str ''exec_summary'') ExecSummary_validate obj)"

text \<open>
  \<open>SegCraftResponse.validate_lengths\<close>, the after-validator of the response: the first
  segment whose number of copies differs from \<open>variants_per_segment\<close> raises
  \<open>ValueError\<close>. Its message is an f-string around \<open>expected\<close> and the segment's identifier
  (the Russian words are given by their code points).
\<close>

definition lengths_message :: "int \<Rightarrow> pystr \<Rightarrow> pystr" where
  "lengths_message expected sid =
     of_str ''copies.length '' @
     [1076, 1086, 1083, 1078, 1085, 1072, 32, 1089, 1086, 1074, 1087, 1072, 1076, 1072, 1090,
      1100, 32, 1089, 32] @
     of_str ''variants_per_segment ('' @ str_int expected @ of_str '') '' @
     [1076, 1083, 1103, 32] @ of_str ''segment_id='' @ sid"

definition validate_lengths :: "SegCraftResponse \<Rightarrow> SegCraftResponse validated" where
  "validate_lengths r =
     (let expected = ie_variants_per_segment (r_input_echo r) in
      case find (\<lambda>segment. int (length (so_copies segment)) \<noteq> expected) (r_segments r) of
        Some segment \<Rightarrow> fail (value_error (lengths_message expected (so_segment_id segment)))
      | None \<Rightarrow> Inr r)"

definition SegCraftResponse_validate ::
  "int_conversion \<Rightarrow> (pystr \<Rightarrow> bool) \<Rightarrow> json \<Rightarrow> SegCraftResponse validated" where
  "SegCraftResponse_validate as_int version_ok =
     v_model (\<lambda>obj.
       case SegCraftResponse_fields as_int version_ok obj of
         Inl es \<Rightarrow> Inl es
       | Inr r \<Rightarrow> validate_lengths r)"

section \<open>The generation orchestrator (llm\_client.py)\<close>

subsection \<open>Errors\<close>

text \<open>
  The exceptions of the module. \<open>LLMValidationError\<close> is a subclass of \<open>LLMClientError\<close>;
  \<open>JSONDecodeError\<close> is raised by \<open>json.loads\<close> and \<open>ValidationError\<close> by the schema. A
  message is named by the place that raises it; the message of the failure after the
  repair attempt ends with the printed second error, which \<open>RepairFailed\<close> carries.
  \<open>ProviderError\<close> stands for whatever the provider's client raises from a call.
\<close>

datatype client_message =
    OpenAIMissing
  | NoKeyForGenerate
  | EmptyResponse
  | NoKeyForRepair
  | EmptyRepairResponse
  | MockFileMissing pystr pystr

datatype llm_error =
    LLMClientError client_message
  | LLMValidationError validation_message
  | JSONDecodeError pystr
  | ValidationError errors
  | ProviderError pystr
and validation_message =
    NoJsonObject
  | IncompleteJson
  | RepairFailed llm_error

text \<open>The errors that \<open>except (json.JSONDecodeError, ValidationError, LLMValidationError)\<close>
  catches.\<close>

fun caught :: "llm_error \<Rightarrow> bool" where
  "caught (LLMValidationError m) = True"
| "caught (JSONDecodeError m) = True"
| "caught (ValidationError es) = True"
| "caught (LLMClientError m) = False"
| "caught (ProviderError m) = False"

subsection \<open>The environment and the provider\<close>

text \<open>
  A request to the provider: model name, input and sampling temperature (in hundredths:
  \<open>0.35\<close> for generation, \<open>0\<close> for repair). The repair prompt is an f-string around the
  printed validation error and the previous raw text; it is kept as these two parts.
\<close>

datatype prompt = Prompt pystr | RepairPrompt llm_error pystr

record request =
  rq_model :: pystr
  rq_input :: prompt
  rq_temperature :: nat

text \<open>The provider's response object: \<open>output_text\<close> (the attribute may be absent) and the
  \<open>text\<close> attributes of the content parts of its output items (\<open>None\<close> where absent).\<close>

record api_response =
  rs_output_text :: "pystr option"
  rs_output :: "pystr option list list"

text \<open>
  What the module reads from outside itself: the environment variables
  \<open>OPENAI_API_KEY\<close> (the empty string when unset) and \<open>MODEL_NAME\<close>, whether the \<open>openai\<close>
  package could be imported, the sample files by directory and name, the provider (its
  answer may depend on the requests made before), \<open>json.loads\<close> (\<open>Inl\<close>: the message of
  its \<open>JSONDecodeError\<close>), and the two library choices of the schema.
\<close>

record env =
  e_api_key :: pystr
  e_openai_installed :: bool
  e_model_name :: "pystr option"
  e_files :: "pystr \<times> pystr \<Rightarrow> pystr option"
  e_create :: "request list \<Rightarrow> request \<Rightarrow> llm_error + api_response"
  e_json_loads :: "pystr \<Rightarrow> pystr + json"
  e_as_int :: int_conversion
  e_version_ok :: "pystr \<Rightarrow> bool"

datatype client = OpenAI pystr

definition get_client :: "env \<Rightarrow> llm_error + client option" where
  "get_client e =
     (let api_key = strip (e_api_key e) in
      if api_key = [] then Inr None
      else if \<not> e_openai_installed e then Inl (LLMClientError OpenAIMissing)
      else Inr (Some (OpenAI api_key)))"

text \<open>\<open>model_name or os.getenv("MODEL_NAME", "gpt-4o-mini")\<close>.\<close>

definition model_of :: "env \<Rightarrow> pystr option \<Rightarrow> pystr" where
  "model_of e model_name =
     (case model_name of
        Some m \<Rightarrow> if m \<noteq> [] then m else get_default (e_model_name e) (of_str ''gpt-4o-mini'')
      | None \<Rightarrow> get_default (e_model_name e) (of_str ''gpt-4o-mini''))"

subsection \<open>Extraction\<close>

text \<open>\<open>text.strip("`")\<close> and \<open>text.replace(old, new, 1)\<close> for a non-empty \<open>old\<close>.\<close>

definition strip_char :: "nat \<Rightarrow> pystr \<Rightarrow> pystr" where
  "strip_char c s = rev (dropWhile (\<lambda>x. x = c) (rev (dropWhile (\<lambda>x. x = c) s)))"

fun replace_first :: "pystr \<Rightarrow> pystr \<Rightarrow> pystr \<Rightarrow> pystr" where
  "replace_first old new [] = []"
| "replace_first old new (c # cs) =
     (if startswith (c # cs) old then new @ drop (length old) (c # cs)
      else c # replace_first old new cs)"

text \<open>\<open>text.find("{")\<close>; \<open>None\<close> is the result \<open>-1\<close>.\<close>

definition find_char :: "nat \<Rightarrow> pystr \<Rightarrow> nat option" where
  "find_char c s = (if c \<in> set s then Some (length (takeWhile (\<lambda>x. x \<noteq> c) s)) else None)"

text \<open>
  The scanning loop of \<open>_extract_first_json_object\<close> over the characters from \<open>index\<close> on,
  with its variables \<open>depth\<close>, \<open>in_string\<close> and \<open>escaped\<close>. The result is the index at
  which the loop returns, or \<open>None\<close> when it runs off the end of the text. (Code points:
  92 backslash, 34 double quote, 123 and 125 the braces.)
\<close>

fun scan :: "pystr \<Rightarrow> nat \<Rightarrow> int \<Rightarrow> bool \<Rightarrow> bool \<Rightarrow> nat option" where
  "scan [] index depth in_string escaped = None"
| "scan (char # rest) index depth in_string escaped =
     (if escaped then scan rest (Suc index) depth in_string False
      else if char = 92 then scan rest (Suc index) depth in_string True
      else if char = 34 then scan rest (Suc index) depth (\<not> in_string) False
      else if in_string then scan rest (Suc index) depth in_string False
      else if char = 123 then scan rest (Suc index) (depth + 1) in_string False
      else if char = 125 then
        (if depth - 1 = 0 then Some index
         else scan rest (Suc index) (depth - 1) in_string False)
      else scan rest (Suc index) depth in_string False)"

text \<open>
  \<open>_extract_first_json_object\<close>: the text is trimmed and, when it opens with a fence,
  freed of its backticks and of the first \<open>json\<close> line (\<open>unfence\<close>); a text that
  \<open>json.loads\<close> accepts is returned whole; otherwise the scan runs from the first opening
  brace. \<open>json.loads\<close> is a parameter of the function.
\<close>

definition unfence :: "pystr \<Rightarrow> pystr" where
  "unfence raw_text =
     (let text = strip raw_text in
      if startswith text (of_str ''```'')
      then strip (replace_first (of_str ''json'' @ [10]) [] (strip_char 96 text))
      else text)"

definition extract_first_json_object :: "(pystr \<Rightarrow> pystr + json) \<Rightarrow> pystr \<Rightarrow> llm_error + pystr" where
  "extract_first_json_object json_loads raw_text =
     (let text = unfence raw_text in
      case json_loads text of
        Inr v \<Rightarrow> Inr text
      | Inl m \<Rightarrow>
          (case find_char 123 text of
             None \<Rightarrow> Inl (LLMValidationError NoJsonObject)
           | Some start \<Rightarrow>
               (case scan (drop start text) start 0 False False of
                  Some index \<Rightarrow> Inr (take (index + 1 - start) (drop start text))
                | None \<Rightarrow> Inl (LLMValidationError IncompleteJson))))"

definition parse_and_validate :: "env \<Rightarrow> pystr \<Rightarrow> llm_error + SegCraftResponse" where
  "parse_and_validate e raw_text =
     (case extract_first_json_object (e_json_loads e) raw_text of
        Inl err \<Rightarrow> Inl err
      | Inr json_text \<Rightarrow>
          (case e_json_loads e json_text of
             Inl m \<Rightarrow> Inl (JSONDecodeError m)
           | Inr payload \<Rightarrow>
               (case SegCraftResponse_validate (e_as_int e) (e_version_ok e) payload of
                  Inl es \<Rightarrow> Inl (ValidationError es)
                | Inr r \<Rightarrow> Inr r)))"

subsection \<open>Calls to the provider\<close>

text \<open>
  The state is the list of requests sent so far; a function that may call the provider
  returns its outcome and the new list. A request is recorded whether or not the
  provider's client raises.
\<close>

definition generate ::
  "env \<Rightarrow> pystr \<Rightarrow> pystr option \<Rightarrow> request list \<Rightarrow> (llm_error + pystr) \<times> request list" where
  "generate e prompt_text model_name calls =
     (case get_client e of
        Inl err \<Rightarrow> (Inl err, calls)
      | Inr None \<Rightarrow> (Inl (LLMClientError NoKeyForGenerate), calls)
      | Inr (Some cl) \<Rightarrow>
          (let rq = \<lparr> rq_model = model_of e model_name, rq_input = Prompt prompt_text,
                      rq_temperature = 35 \<rparr>
           in case e_create e calls rq of
                Inl err \<Rightarrow> (Inl err, calls @ [rq])
              | Inr response \<Rightarrow>
                  (let raw_text = get_default (rs_output_text response) [] in
                   if raw_text \<noteq> [] then (Inr raw_text, calls @ [rq])
                   else
                     (let parts = concat (map (\<lambda>item. concat (map (\<lambda>text_value.
                                     case text_value of
                                       None \<Rightarrow> []
                                     | Some t \<Rightarrow> if t \<noteq> [] then [t] else []) item))
                                   (rs_output response));
                          combined = strip (join [10] parts)
                      in if combined = [] then (Inl (LLMClientError EmptyResponse), calls @ [rq])
                         else (Inr combined, calls @ [rq])))))"

definition repair_json ::
  "env \<Rightarrow> pystr \<Rightarrow> llm_error \<Rightarrow> pystr option \<Rightarrow> request list
     \<Rightarrow> (llm_error + pystr) \<times> request list" where
  "repair_json e raw_text validation_error model_name calls =
     (case get_client e of
        Inl err \<Rightarrow> (Inl err, calls)
      | Inr None \<Rightarrow> (Inl (LLMClientError NoKeyForRepair), calls)
      | Inr (Some cl) \<Rightarrow>
          (let rq = \<lparr> rq_model = model_of e model_name,
                      rq_input = RepairPrompt validation_error raw_text,
                      rq_temperature = 0 \<rparr>
           in case e_create e calls rq of
                Inl err \<Rightarrow> (Inl err, calls @ [rq])
              | Inr response \<Rightarrow>
                  (let fixed = strip (get_default (rs_output_text response) []) in
                   if fixed = [] then (Inl (LLMClientError EmptyRepairResponse), calls @ [rq])
                   else (Inr fixed, calls @ [rq]))))"

subsection \<open>Mock output and the orchestrator\<close>

definition mock_file_name :: "pystr \<Rightarrow> pystr" where
  "mock_file_name format_id =
     (if format_id = of_str ''yadirect_text'' then of_str ''sample_output_1.json''
      else of_str ''sample_output_2.json'')"

definition load_mock_output :: "env \<Rightarrow> pystr \<Rightarrow> pystr \<Rightarrow> llm_error + SegCraftResponse" where
  "load_mock_output e format_id samples_dir =
     (let file_name = mock_file_name format_id in
      case e_files e (samples_dir, file_name) of
        None \<Rightarrow> Inl (LLMClientError (MockFileMissing samples_dir file_name))
      | Some text \<Rightarrow>
          (case e_json_loads e text of
             Inl m \<Rightarrow> Inl (JSONDecodeError m)
           | Inr data \<Rightarrow>
               (case SegCraftResponse_validate (e_as_int e) (e_version_ok e) data of
                  Inl es \<Rightarrow> Inl (ValidationError es)
                | Inr r \<Rightarrow> Inr r)))"

text \<open>The result of \<open>run_generation\<close>: the validated response, the mode and the raw text.\<close>

type_synonym generation = "SegCraftResponse \<times> pystr \<times> pystr"

definition live_generation ::
  "env \<Rightarrow> pystr \<Rightarrow> pystr option \<Rightarrow> request list \<Rightarrow> (llm_error + generation) \<times> request list" where
  "live_generation e prompt_text model_name calls =
     (case generate e prompt_text model_name calls of
        (Inl err, calls1) \<Rightarrow> (Inl err, calls1)
      | (Inr raw_text, calls1) \<Rightarrow>
          (case parse_and_validate e raw_text of
             Inr r \<Rightarrow> (Inr (r, of_str ''llm'', raw_text), calls1)
           | Inl first_error \<Rightarrow>
               if \<not> caught first_error then (Inl first_error, calls1)
               else
                 (case repair_json e raw_text first_error model_name calls1 of
                    (Inl err, calls2) \<Rightarrow> (Inl err, calls2)
                  | (Inr repaired_raw, calls2) \<Rightarrow>
                      (case parse_and_validate e repaired_raw of
                         Inr validated \<Rightarrow> (Inr (validated, of_str ''llm'', repaired_raw), calls2)
                       | Inl second_error \<Rightarrow>
                           if caught second_error
                           then (Inl (LLMValidationError (RepairFailed second_error)), calls2)
                           else (Inl second_error, calls2)))))"

definition mock_generation ::
  "env \<Rightarrow> pystr \<Rightarrow> pystr \<Rightarrow> request list \<Rightarrow> (llm_error + generation) \<times> request list" where
  "mock_generation e format_id samples_dir calls =
     (case load_mock_output e format_id samples_dir of
        Inl err \<Rightarrow> (Inl err, calls)
      | Inr r \<Rightarrow> (Inr (r, of_str ''mock'', []), calls))"

text \<open>\<open>force_mock or get_client() is None\<close>: the client is not looked up when mock mode
  is forced.\<close>

definition run_generation ::
  "env \<Rightarrow> pystr \<Rightarrow> pystr \<Rightarrow> pystr option \<Rightarrow> pystr \<Rightarrow> bool \<Rightarrow> request list
     \<Rightarrow> (llm_error + generation) \<times> request list" where
  "run_generation e prompt_text format_id model_name samples_dir force_mock calls =
     (if force_mock then mock_generation e format_id samples_dir calls
      else (case get_client e of
              Inl err \<Rightarrow> (Inl err, calls)
            | Inr None \<Rightarrow> mock_generation e format_id samples_dir calls
            | Inr (Some cl) \<Rightarrow> live_generation e prompt_text model_name calls))"

section \<open>Sample inputs\<close>

text \<open>Concrete inputs at which the theorems below are instantiated and evaluated.\<close>

text \<open>A segments block whose last record is never closed:
  \<open>SEGMENT\<close>, \<open>id=a\<close>, \<open>END\<close>, \<open>SEGMENT\<close>, \<open>id=x\<close>; and the same block without the open
  record.\<close>

definition closed_block :: pystr where
  "closed_block = of_str ''SEGMENT'' @ [10] @ of_str ''id=a'' @ [10] @ of_str ''END''"

definition open_block :: pystr where
  "open_block = closed_block @ [10] @ of_str ''SEGMENT'' @ [10] @ of_str ''id=x''"

text \<open>
  \<open>ascii_int\<close> is a conversion for evaluating the format parser on the sample blocks
  below, in the place of the builtin \<open>int\<close>. It reads ASCII literals: surrounding
  whitespace is ignored, one sign is allowed, and the digits \<open>0\<close> to \<open>9\<close> may be grouped
  by single underscores. It is not the builtin: it refuses the digits of other scripts
  and has no limit on the number of digits. On the sample texts (\<open>0\<close>, \<open>5\<close>, \<open>abc\<close>) the
  two agree.
\<close>

fun digits_value :: "nat \<Rightarrow> bool \<Rightarrow> pystr \<Rightarrow> nat option" where
  "digits_value acc after_digit [] = (if after_digit then Some acc else None)"
| "digits_value acc after_digit (c # cs) =
     (if is_digit c then digits_value (acc * 10 + (c - 48)) True cs
      else if c = 95 \<and> after_digit then digits_value acc False cs
      else None)"

definition ascii_int :: int_builtin where
  "ascii_int s =
     (case strip s of
        [] \<Rightarrow> None
      | c # cs \<Rightarrow>
          if c = 45 then map_option (\<lambda>n. - int n) (digits_value 0 False cs)
          else if c = 43 then map_option int (digits_value 0 False cs)
          else map_option int (digits_value 0 False (c # cs)))"

text \<open>A formats block whose record gives a word for \<open>headline_max\<close>:
  \<open>FORMAT\<close>, \<open>id=f1\<close>, \<open>headline_max=abc\<close>, \<open>END\<close>.\<close>

definition word_block :: pystr where
  "word_block =
     of_str ''FORMAT'' @ [10] @ of_str ''id=f1'' @ [10] @ of_str ''headline_max=abc'' @ [10] @
     of_str ''END''"

definition word_state :: fmt_state where
  "word_state =
     \<lparr> formats = [], fmt_buffer = [of_str ''id=f1'', of_str ''headline_max=abc''],
       in_format = True \<rparr>"

text \<open>A formats block whose record gives no maximum: \<open>FORMAT\<close>, \<open>id=f2\<close>, \<open>END\<close>.\<close>

definition bare_block :: pystr where
  "bare_block = of_str ''FORMAT'' @ [10] @ of_str ''id=f2'' @ [10] @ of_str ''END''"

definition bare_state :: fmt_state where
  "bare_state = \<lparr> formats = [], fmt_buffer = [of_str ''id=f2''], in_format = True \<rparr>"

text \<open>A formats block whose record gives one maximum only:
  \<open>FORMAT\<close>, \<open>id=f3\<close>, \<open>headline_max=5\<close>, \<open>END\<close>.\<close>

definition half_block :: pystr where
  "half_block =
     of_str ''FORMAT'' @ [10] @ of_str ''id=f3'' @ [10] @ of_str ''headline_max=5'' @ [10] @
     of_str ''END''"

definition half_state :: fmt_state where
  "half_state =
     \<lparr> formats = [], fmt_buffer = [of_str ''id=f3'', of_str ''headline_max=5''],
       in_format = True \<rparr>"

text \<open>The limits of the records that \<open>parse_formats\<close> returns.\<close>

definition limits_after :: "source_error + format list \<Rightarrow> source_error + limits list" where
  "limits_after result =
     (case result of Inl e \<Rightarrow> Inl e | Inr fs \<Rightarrow> Inr (map fr_limits fs))"

subsection \<open>Vocabulary and samples for the format-limit pass\<close>

text \<open>The pass applied to its own result; an error of the first run ends the second.\<close>

definition ensure_twice :: "payload \<Rightarrow> format_limits \<Rightarrow> source_error + payload" where
  "ensure_twice p fl =
     (case ensure_format_limits p fl of Inl e \<Rightarrow> Inl e | Inr p' \<Rightarrow> ensure_format_limits p' fl)"

text \<open>The maxima that an entry of the limits dictionary holds are not negative.\<close>

definition nonneg_limits :: "(pystr \<times> int) list option \<Rightarrow> bool" where
  "nonneg_limits entry =
     (case entry of
        None \<Rightarrow> True
      | Some lims \<Rightarrow>
          (case map_of lims (of_str ''headline_max'') of None \<Rightarrow> True | Some h \<Rightarrow> 0 \<le> h) \<and>
          (case map_of lims (of_str ''body_max'') of None \<Rightarrow> True | Some b \<Rightarrow> 0 \<le> b))"

text \<open>All copy variants of a payload, in order.\<close>

definition copies_of :: "payload \<Rightarrow> copy_dict list" where
  "copies_of p =
     concat (map (\<lambda>s. get_default (sd_copies s) []) (get_default (pd_segments p) []))"

text \<open>
  What the specification says of one copy variant \<open>c\<close> and the same variant \<open>c'\<close> after
  the pass, for the maxima \<open>h\<close> and \<open>b\<close>: a text longer than its maximum is cut to the
  maximum and stripped of trailing whitespace, any other text is left alone; either way
  the text is then no longer than its maximum and a cut text does not end in whitespace;
  one \<open>format_overflow\<close> flag is appended when a text was cut, none otherwise; the
  character counts are the lengths of the final texts; the other keys are untouched.
\<close>

definition enforced :: "int \<Rightarrow> int \<Rightarrow> copy_dict \<Rightarrow> copy_dict \<Rightarrow> bool" where
  "enforced h b c c' \<longleftrightarrow>
     (let headline = get_default (cd_headline c) [];
          body = get_default (cd_body c) [];
          headline' = get_default (cd_headline c') [];
          body' = get_default (cd_body c') [];
          overflow = (int (length headline) > h \<or> int (length body) > b)
      in (if int (length headline) > h
          then cd_headline c' = Some (rstrip (take (nat h) headline)) \<and>
               (headline' = [] \<or> \<not> is_space (last headline'))
          else cd_headline c' = cd_headline c)
       \<and> (if int (length body) > b
          then cd_body c' = Some (rstrip (take (nat b) body)) \<and>
               (body' = [] \<or> \<not> is_space (last body'))
          else cd_body c' = cd_body c)
       \<and> int (length headline') \<le> h
       \<and> int (length body') \<le> b
       \<and> cd_risk_flags c' =
            Some (get_default (cd_risk_flags c) [] @ (if overflow then [overflow_flag] else []))
       \<and> cd_char_count c' =
            Some (JObj [(of_str ''headline'', JInt (int (length headline'))),
                        (of_str ''body'', JInt (int (length body')))])
       \<and> cd_other c' = cd_other c)"

text \<open>The headlines of the copy variants that the pass returns.\<close>

definition headlines_after :: "source_error + payload \<Rightarrow> source_error + pystr option list" where
  "headlines_after result =
     (case result of Inl e \<Rightarrow> Inl e | Inr p \<Rightarrow> Inr (map cd_headline (copies_of p)))"

text \<open>A payload with one copy variant, echoing the format \<open>f1\<close>.\<close>

definition payload_with :: "pystr \<Rightarrow> pystr \<Rightarrow> payload" where
  "payload_with headline body =
     \<lparr> pd_input_echo = Some \<lparr> ed_format_id = Some (of_str ''f1''), ed_other = [] \<rparr>,
       pd_segments =
         Some [\<lparr> sd_copies =
                   Some [\<lparr> cd_headline = Some headline, cd_body = Some body,
                           cd_char_count = None, cd_risk_flags = None, cd_other = [] \<rparr>],
                 sd_other = [] \<rparr>],
       pd_other = [] \<rparr>"

definition limits_for_f1 :: "int \<Rightarrow> int \<Rightarrow> format_limits" where
  "limits_for_f1 h b =
     (\<lambda>format_id. if format_id = of_str ''f1''
        then Some [(of_str ''headline_max'', h), (of_str ''body_max'', b)] else None)"

text \<open>A headline of 15 characters whose tenth character is a space.\<close>

definition long_headline :: pystr where
  "long_headline = of_str ''ab cdefgh  klmn''"

subsection \<open>Sample response documents\<close>

text \<open>
  A response document with the given \<open>variants_per_segment\<close> and segments; a segment with
  the given identifier and copies; a copy variant with the given texts and further items
  (its \<open>char_count\<close>, when it has one).
\<close>

definition copy_json :: "pystr \<Rightarrow> pystr \<Rightarrow> (pystr \<times> json) list \<Rightarrow> json" where
  "copy_json headline body extra =
     JObj ([(of_str ''headline'', JStr headline), (of_str ''body'', JStr body),
            (of_str ''cta'', JStr (of_str ''go'')),
            (of_str ''rationale'', JStr (of_str ''why''))] @ extra)"

definition counts_json :: "int \<Rightarrow> int \<Rightarrow> (pystr \<times> json) list" where
  "counts_json h b =
     [(of_str ''char_count'', JObj [(of_str ''headline'', JInt h), (of_str ''body'', JInt b)])]"

definition segment_json :: "pystr \<Rightarrow> json list \<Rightarrow> json" where
  "segment_json sid copies =
     JObj [(of_str ''segment_id'', JStr sid), (of_str ''segment_name'', JStr (of_str ''n'')),
           (of_str ''core_insight'', JStr (of_str ''c'')), (of_str ''trigger'', JStr (of_str ''t'')),
           (of_str ''angle'', JStr (of_str ''a'')), (of_str ''copies'', JArr copies),
           (of_str ''differences_note'', JStr (of_str ''d''))]"

definition response_items :: "int \<Rightarrow> json list \<Rightarrow> (pystr \<times> json) list" where
  "response_items variants segs =
     [(of_str ''version'', JStr (of_str ''1.0'')),
      (of_str ''input_echo'',
         JObj [(of_str ''base_text'', JStr (of_str ''base'')),
               (of_str ''tone'', JStr (of_str ''neutral'')),
               (of_str ''format_id'', JStr (of_str ''f1'')),
               (of_str ''variants_per_segment'', JInt variants)]),
      (of_str ''segments'', JArr segs),
      (of_str ''export_hints'',
         JObj [(of_str ''how_to_use'', JArr []), (of_str ''ab_test_suggestions'', JArr [])]),
      (of_str ''exec_summary'',
         JObj [(of_str ''for_marketer'', JStr (of_str ''m'')),
               (of_str ''for_non_tech_manager'', JStr (of_str ''n''))])]"

definition response_json :: "int \<Rightarrow> json list \<Rightarrow> json" where
  "response_json variants segs = JObj (response_items variants segs)"

text \<open>The copy variant \<open>ab\<close> / \<open>xyz\<close> with the counts 99 and 99, and the same variant
  without \<open>char_count\<close>.\<close>

definition miscounted_copy :: json where
  "miscounted_copy = copy_json (of_str ''ab'') (of_str ''xyz'') (counts_json 99 99)"

definition uncounted_copy :: json where
  "uncounted_copy = copy_json (of_str ''ab'') (of_str ''xyz'') []"

text \<open>The validated response for one segment \<open>s1\<close> with the given copies.\<close>

definition validated_copy :: CopyVariant where
  "validated_copy =
     \<lparr> cv_headline = of_str ''ab'', cv_body = of_str ''xyz'', cv_cta = of_str ''go'',
       cv_rationale = of_str ''why'', cv_char_count = \<lparr> cc_headline = 2, cc_body = 3 \<rparr>,
       cv_risk_flags = [] \<rparr>"

definition validated_response :: "int \<Rightarrow> CopyVariant list \<Rightarrow> SegCraftResponse" where
  "validated_response variants copies =
     \<lparr> r_version = of_str ''1.0'',
       r_input_echo =
         \<lparr> ie_base_text = of_str ''base'', ie_tone = neutral, ie_format_id = of_str ''f1'',
           ie_variants_per_segment = variants, ie_constraints = [], ie_assumptions = [] \<rparr>,
       r_questions = [],
       r_segments =
         [\<lparr> so_segment_id = of_str ''s1'', so_segment_name = of_str ''n'',
            so_core_insight = of_str ''c'', so_trigger = of_str ''t'', so_angle = of_str ''a'',
            so_copies = copies, so_differences_note = of_str ''d'' \<rparr>],
       r_global_risks = [],
       r_export_hints = \<lparr> eh_how_to_use = [], eh_ab_test_suggestions = [] \<rparr>,
       r_exec_summary = \<lparr> es_for_marketer = of_str ''m'', es_for_non_tech_manager = of_str ''n'' \<rparr> \<rparr>"

text \<open>A validated segment with the given identifier and copies, and a validated response
  with the given segments.\<close>

definition validated_segment :: "pystr \<Rightarrow> CopyVariant list \<Rightarrow> SegmentOutput" where
  "validated_segment sid copies =
     \<lparr> so_segment_id = sid, so_segment_name = of_str ''n'', so_core_insight = of_str ''c'',
       so_trigger = of_str ''t'', so_angle = of_str ''a'', so_copies = copies,
       so_differences_note = of_str ''d'' \<rparr>"

definition validated_with_segments :: "int \<Rightarrow> SegmentOutput list \<Rightarrow> SegCraftResponse" where
  "validated_with_segments variants segs =
     (validated_response variants []) \<lparr> r_segments := segs \<rparr>"

subsection \<open>Sample environments for the orchestrator\<close>

text \<open>
  A decoder that knows the documents of a table and refuses every other text, for
  evaluating the orchestrator at concrete inputs.
\<close>

definition loads_table :: "(pystr \<times> json) list \<Rightarrow> pystr \<Rightarrow> pystr + json" where
  "loads_table table s =
     (case map_of table s of Some j \<Rightarrow> Inr j | None \<Rightarrow> Inl (of_str ''Expecting value''))"

text \<open>The model output of the extraction boundary case and the object inside it.\<close>

definition boundary_text :: pystr where
  "boundary_text = of_str ''prefix text {\"a\": {\"b\": \"}\"}} trailing''"

definition boundary_object :: pystr where
  "boundary_object = of_str ''{\"a\": {\"b\": \"}\"}}''"

text \<open>
  A live environment: a key is configured and the provider answers every request with the
  text that \<open>answer\<close> gives for the requests made before. No text is valid JSON for its
  decoder.
\<close>

definition live_env :: "(request list \<Rightarrow> pystr) \<Rightarrow> env" where
  "live_env answer =
     \<lparr> e_api_key = of_str ''sk-test'', e_openai_installed = True, e_model_name = None,
       e_files = (\<lambda>path. None),
       e_create = (\<lambda>calls rq. Inr \<lparr> rs_output_text = Some (answer calls), rs_output = [] \<rparr>),
       e_json_loads = loads_table [],
       e_as_int = strict_int, e_version_ok = ascii_version \<rparr>"

text \<open>A provider that first answers with prose and then with an object that is never
  closed.\<close>

definition two_bad_answers :: "request list \<Rightarrow> pystr" where
  "two_bad_answers calls = (if calls = [] then of_str ''no json here'' else of_str ''{ \"a\": 1'')"

definition first_request :: request where
  "first_request =
     \<lparr> rq_model = of_str ''gpt-4o-mini'', rq_input = Prompt (of_str ''write''),
       rq_temperature = 35 \<rparr>"

definition repair_request :: request where
  "repair_request =
     \<lparr> rq_model = of_str ''gpt-4o-mini'',
       rq_input = RepairPrompt (LLMValidationError NoJsonObject) (of_str ''no json here''),
       rq_temperature = 0 \<rparr>"

text \<open>
  A mock environment: no key is configured, a provider call would fail, and the samples
  directory holds the given files; the decoder knows the two sample documents.
\<close>

definition sample_document :: "pystr \<Rightarrow> json" where
  "sample_document sid = response_json 1 [segment_json sid [miscounted_copy]]"

definition mock_env :: "(pystr \<times> pystr \<Rightarrow> pystr option) \<Rightarrow> env" where
  "mock_env files =
     \<lparr> e_api_key = [], e_openai_installed = True, e_model_name = None,
       e_files = files,
       e_create = (\<lambda>calls rq. Inl (ProviderError (of_str ''unreachable''))),
       e_json_loads =
         loads_table [(of_str ''document 1'', sample_document (of_str ''one'')),
                      (of_str ''document 2'', sample_document (of_str ''two''))],
       e_as_int = strict_int, e_version_ok = ascii_version \<rparr>"

definition both_samples :: "pystr \<times> pystr \<Rightarrow> pystr option" where
  "both_samples path =
     (if path = (of_str ''samples'', of_str ''sample_output_1.json'') then Some (of_str ''document 1'')
      else if path = (of_str ''samples'', of_str ''sample_output_2.json'')
        then Some (of_str ''document 2'')
      else None)"

definition no_samples :: "pystr \<times> pystr \<Rightarrow> pystr option" where
  "no_samples path = None"

definition validated_sample :: "pystr \<Rightarrow> SegCraftResponse" where
  "validated_sample sid =
     (validated_response 1 [validated_copy])
       \<lparr> r_segments :=
           [\<lparr> so_segment_id = sid, so_segment_name = of_str ''n'',
              so_core_insight = of_str ''c'', so_trigger = of_str ''t'', so_angle = of_str ''a'',
              so_copies = [validated_copy], so_differences_note = of_str ''d'' \<rparr>] \<rparr>"

section \<open>Verification: the record parsers\<close>

text \<open>The definitions of the string functions, for evaluating them on literals.\<close>

named_theorems str_defs

declare of_str_def [str_defs]
declare strip_def [str_defs]
declare lstrip_def [str_defs]
declare rstrip_def [str_defs]
declare is_space_def [str_defs]
declare is_linebreak_def [str_defs]
declare startswith_def [str_defs]
declare splitlines_def [str_defs]
declare split_once_def [str_defs]

subsection \<open>Segments\<close>

lemma seg_step_keeps_segments:
  "strip l \<noteq> of_str ''END'' \<Longrightarrow> segments (seg_step st l) = segments st"
  by (simp add: seg_step_def Let_def)

lemma seg_fold_keeps_segments:
  "\<forall>l\<in>set rest. strip l \<noteq> of_str ''END'' \<Longrightarrow>
     segments (foldl seg_step st rest) = segments st"
  by (induction rest arbitrary: st) (simp_all add: seg_step_keeps_segments)

lemma seg_step_closed_buffer:
  "(\<not> in_segment st \<longrightarrow> buffer st = []) \<Longrightarrow>
     (\<not> in_segment (seg_step st l) \<longrightarrow> buffer (seg_step st l) = [])"
  by (simp add: seg_step_def Let_def)

lemma seg_fold_closed_buffer:
  "(\<not> in_segment st \<longrightarrow> buffer st = []) \<Longrightarrow>
     (\<not> in_segment (foldl seg_step st ls) \<longrightarrow> buffer (foldl seg_step st ls) = [])"
proof (induction ls arbitrary: st)
  case Nil
  then show ?case by simp
next
  case (Cons l ls)
  show ?case using Cons.IH [OF seg_step_closed_buffer [OF Cons.prems]] by simp
qed

lemma seg_loop_closed_buffer: "\<not> in_segment (seg_loop ls) \<Longrightarrow> buffer (seg_loop ls) = []"
  using seg_fold_closed_buffer [of seg_init ls] by (simp add: seg_loop_def seg_init_def)

lemma seg_step_stray_end:
  "strip e = of_str ''END'' \<Longrightarrow> \<not> in_segment st \<Longrightarrow> buffer st = [] \<Longrightarrow> seg_step st e = st"
  by (simp add: seg_step_def Let_def of_str_def startswith_def)

text \<open>
  Claim C8, as the code has it. A record that is opened by a \<open>SEGMENT\<close> line and not closed
  by an \<open>END\<close> line before the block ends is dropped: the block parses to the same list as
  the block cut before that \<open>SEGMENT\<close> line. An \<open>END\<close> line met while no record is open
  changes nothing: the block parses as if the line were not there.
\<close>

theorem parse_segments_drops_open_record:
  assumes "splitlines text = ls @ opener # rest"
    and "strip opener = of_str ''SEGMENT''"
    and "\<forall>l\<in>set rest. strip l \<noteq> of_str ''END''"
    and "splitlines text0 = ls"
  shows "parse_segments text = parse_segments text0 \<and>
     (\<forall>e more. strip e = of_str ''END'' \<and> \<not> in_segment (seg_loop ls) \<longrightarrow>
        seg_loop (ls @ e # more) = seg_loop (ls @ more))"
proof -
  have ne: "strip opener \<noteq> of_str ''END''"
    using assms(2) by (simp add: of_str_def)
  have "segments (seg_loop (ls @ opener # rest)) = segments (seg_step (seg_loop ls) opener)"
    using seg_fold_keeps_segments [OF assms(3)] by (simp add: seg_loop_def)
  also have "\<dots> = segments (seg_loop ls)"
    by (rule seg_step_keeps_segments [OF ne])
  finally have dropped: "parse_segments text = parse_segments text0"
    using assms(1,4) by (simp add: parse_segments_def)
  have stray: "seg_loop (ls @ e # more) = seg_loop (ls @ more)"
    if "strip e = of_str ''END''" "\<not> in_segment (seg_loop ls)" for e more
    using seg_step_stray_end [OF that seg_loop_closed_buffer [OF that(2)]]
    by (simp add: seg_loop_def)
  from dropped stray show ?thesis by blast
qed

lemma splitlines_open_block:
  "splitlines open_block =
     [of_str ''SEGMENT'', of_str ''id=a'', of_str ''END''] @ of_str ''SEGMENT'' # [of_str ''id=x'']"
  by (simp add: open_block_def closed_block_def str_defs)

lemma splitlines_closed_block:
  "splitlines closed_block = [of_str ''SEGMENT'', of_str ''id=a'', of_str ''END'']"
  by (simp add: closed_block_def str_defs)

lemma parse_closed_block:
  "map sr_segment_id (parse_segments closed_block) = [of_str ''a'']"
  by (simp add: parse_segments_def closed_block_def seg_loop_def seg_init_def
      seg_step_def segment_of_kv_def parse_key_values_def kv_line_def get_or_def str_defs)

lemma closed_block_not_open:
  "\<not> in_segment (seg_loop [of_str ''SEGMENT'', of_str ''id=a'', of_str ''END''])"
  by (simp add: seg_loop_def seg_init_def seg_step_def str_defs)

theorem parse_segments_drops_open_record_witness:
  "splitlines open_block =
     [of_str ''SEGMENT'', of_str ''id=a'', of_str ''END''] @ of_str ''SEGMENT'' # [of_str ''id=x'']
   \<and> strip (of_str ''SEGMENT'') = of_str ''SEGMENT''
   \<and> strip (of_str ''id=x'') \<noteq> of_str ''END''
   \<and> splitlines closed_block = [of_str ''SEGMENT'', of_str ''id=a'', of_str ''END'']
   \<and> parse_segments open_block = parse_segments closed_block
   \<and> map sr_segment_id (parse_segments open_block) = [of_str ''a'']
   \<and> strip (of_str ''END'') = of_str ''END''
   \<and> \<not> in_segment (seg_loop [of_str ''SEGMENT'', of_str ''id=a'', of_str ''END''])
   \<and> seg_loop ([of_str ''SEGMENT'', of_str ''id=a'', of_str ''END''] @ of_str ''END'' # [])
       = seg_loop ([of_str ''SEGMENT'', of_str ''id=a'', of_str ''END''] @ [])"
proof -
  have s: "strip (of_str ''SEGMENT'') = of_str ''SEGMENT''"
    by (simp add: str_defs)
  have e: "strip (of_str ''END'') = of_str ''END''"
    by (simp add: str_defs)
  have r: "\<forall>l\<in>set [of_str ''id=x'']. strip l \<noteq> of_str ''END''"
    by (simp add: str_defs)
  note both = parse_segments_drops_open_record
      [OF splitlines_open_block s r splitlines_closed_block]
  from both have dropped: "parse_segments open_block = parse_segments closed_block"
    by blast
  from both e closed_block_not_open
  have stray: "seg_loop ([of_str ''SEGMENT'', of_str ''id=a'', of_str ''END''] @ of_str ''END'' # [])
       = seg_loop ([of_str ''SEGMENT'', of_str ''id=a'', of_str ''END''] @ [])"
    by blast
  from dropped stray show ?thesis
    using splitlines_open_block splitlines_closed_block s e r parse_closed_block
      closed_block_not_open by simp
qed

text \<open>
  Claim C8, as the spec states it, fails: the block \<open>SEGMENT\<close>, \<open>id=x\<close> ends with an open
  record, and the parser emits nothing for it.
\<close>

theorem parse_segments_open_record_counterexample:
  "parse_segments (of_str ''SEGMENT'' @ [10] @ of_str ''id=x'') = []"
  by (simp add: parse_segments_def seg_loop_def seg_init_def seg_step_def str_defs)

subsection \<open>Formats\<close>

lemma fmt_loop_append:
  "fmt_loop to_int st (xs @ ys) =
     (case fmt_loop to_int st xs of Inl e \<Rightarrow> Inl e | Inr st' \<Rightarrow> fmt_loop to_int st' ys)"
  by (induction xs arbitrary: st) (auto split: sum.splits)

lemma ascii_int_zero: "ascii_int (of_str ''0'') = Some 0"
  by (simp add: ascii_int_def is_digit_def str_defs)

lemma fmt_step_end:
  "strip closer = of_str ''END'' \<Longrightarrow> in_format st \<Longrightarrow>
     fmt_step to_int st closer =
       (case format_of_kv to_int (parse_key_values (join [10] (fmt_buffer st))) of
          Inl e \<Rightarrow> Inl e
        | Inr f \<Rightarrow> Inr \<lparr> formats = formats st @ [f], fmt_buffer = [], in_format = False \<rparr>)"
  by (simp add: fmt_step_def Let_def of_str_def startswith_def)

lemma parse_formats_fails:
  assumes "splitlines text = pre @ closer # post"
    and "fmt_loop to_int fmt_init pre = Inr st"
    and "fmt_step to_int st closer = Inl e"
  shows "parse_formats to_int text = Inl e"
  using assms by (simp add: parse_formats_def fmt_loop_append)

lemma format_of_kv_limits:
  assumes "to_int (of_str ''0'') = Some 0"
    and "(m (of_str ''headline_max'') = None \<and> h = 0) \<or>
         (\<exists>v. m (of_str ''headline_max'') = Some v \<and> to_int v = Some h)"
    and "(m (of_str ''body_max'') = None \<and> b = 0) \<or>
         (\<exists>v. m (of_str ''body_max'') = Some v \<and> to_int v = Some b)"
  shows "\<exists>f. format_of_kv to_int m = Inr f \<and> fr_limits f = \<lparr> headline_max = h, body_max = b \<rparr>"
proof -
  from assms(1,2) have "int_of_text to_int (get_or m (of_str ''headline_max'') (of_str ''0'')) = Inr h"
    by (auto simp: int_of_text_def get_or_def)
  moreover from assms(1,3)
  have "int_of_text to_int (get_or m (of_str ''body_max'') (of_str ''0'')) = Inr b"
    by (auto simp: int_of_text_def get_or_def)
  ultimately show ?thesis by (simp add: format_of_kv_def)
qed

text \<open>
  Claim C9, as the code has it. Take the \<open>END\<close> line that closes an open format record,
  and the key-value block \<open>m\<close> of the buffered lines; \<open>int\<close> reads the text \<open>0\<close> as 0.
  When each maximum is either absent or a text that \<open>int\<close> accepts, the parser does not
  fail at this line: it emits the record, and the limit of an absent maximum is 0 while
  the limit of a present one is its value. A present value that \<open>int\<close> refuses is not
  replaced by 0: \<open>parse_formats\<close> fails with the \<open>ValueError\<close> of that value.
\<close>

theorem parse_formats_maxima:
  assumes "splitlines text = pre @ closer # post"
    and "fmt_loop to_int fmt_init pre = Inr st"
    and "in_format st"
    and "strip closer = of_str ''END''"
    and "m = parse_key_values (join [10] (fmt_buffer st))"
    and "to_int (of_str ''0'') = Some 0"
  shows "(\<forall>h b.
            ((m (of_str ''headline_max'') = None \<and> h = 0) \<or>
             (\<exists>v. m (of_str ''headline_max'') = Some v \<and> to_int v = Some h)) \<and>
            ((m (of_str ''body_max'') = None \<and> b = 0) \<or>
             (\<exists>v. m (of_str ''body_max'') = Some v \<and> to_int v = Some b)) \<longrightarrow>
            (\<exists>f. fmt_loop to_int fmt_init (pre @ [closer]) =
                    Inr \<lparr> formats = formats st @ [f], fmt_buffer = [], in_format = False \<rparr> \<and>
                 fr_limits f = \<lparr> headline_max = h, body_max = b \<rparr>))
     \<and> (\<forall>st'. fmt_step to_int st closer = Inr st' \<longrightarrow>
            (\<exists>f. formats st' = formats st @ [f] \<and>
               (m (of_str ''headline_max'') = None \<longrightarrow> headline_max (fr_limits f) = 0) \<and>
               (m (of_str ''body_max'') = None \<longrightarrow> body_max (fr_limits f) = 0)))
     \<and> (m (of_str ''headline_max'') = None \<and> m (of_str ''body_max'') = None \<longrightarrow>
            (\<exists>st'. fmt_step to_int st closer = Inr st'))
     \<and> (\<forall>v. m (of_str ''headline_max'') = Some v \<and> to_int v = None \<longrightarrow>
            parse_formats to_int text = Inl (ValueError v))
     \<and> (\<forall>v. m (of_str ''body_max'') = Some v \<and> to_int v = None \<and>
            to_int (get_or m (of_str ''headline_max'') (of_str ''0'')) \<noteq> None \<longrightarrow>
            parse_formats to_int text = Inl (ValueError v))"
proof -
  note step = fmt_step_end [OF assms(4) assms(3), of to_int, folded assms(5)]
  have emitted: "\<exists>f. fmt_loop to_int fmt_init (pre @ [closer]) =
        Inr \<lparr> formats = formats st @ [f], fmt_buffer = [], in_format = False \<rparr> \<and>
        fr_limits f = \<lparr> headline_max = h, body_max = b \<rparr>"
    if "((m (of_str ''headline_max'') = None \<and> h = 0) \<or>
         (\<exists>v. m (of_str ''headline_max'') = Some v \<and> to_int v = Some h)) \<and>
        ((m (of_str ''body_max'') = None \<and> b = 0) \<or>
         (\<exists>v. m (of_str ''body_max'') = Some v \<and> to_int v = Some b))" for h b
  proof -
    from that format_of_kv_limits [of to_int m h b, OF assms(6)] obtain f
      where f: "format_of_kv to_int m = Inr f"
        and l: "fr_limits f = \<lparr> headline_max = h, body_max = b \<rparr>"
      by blast
    from f have "fmt_step to_int st closer =
        Inr \<lparr> formats = formats st @ [f], fmt_buffer = [], in_format = False \<rparr>"
      unfolding step by simp
    with assms(2) have "fmt_loop to_int fmt_init (pre @ [closer]) =
        Inr \<lparr> formats = formats st @ [f], fmt_buffer = [], in_format = False \<rparr>"
      by (simp add: fmt_loop_append)
    with l show ?thesis by blast
  qed
  have a: "\<exists>f. formats st' = formats st @ [f] \<and>
               (m (of_str ''headline_max'') = None \<longrightarrow> headline_max (fr_limits f) = 0) \<and>
               (m (of_str ''body_max'') = None \<longrightarrow> body_max (fr_limits f) = 0)"
    if "fmt_step to_int st closer = Inr st'" for st'
    using that assms(6) unfolding step
    by (auto simp: format_of_kv_def int_of_text_def get_or_def
        split: sum.splits option.splits)
  have b: "\<exists>st'. fmt_step to_int st closer = Inr st'"
    if "m (of_str ''headline_max'') = None \<and> m (of_str ''body_max'') = None"
    using that assms(6) unfolding step
    by (simp add: format_of_kv_def int_of_text_def get_or_def)
  have c: "parse_formats to_int text = Inl (ValueError v)"
    if "m (of_str ''headline_max'') = Some v \<and> to_int v = None" for v
  proof -
    have "fmt_step to_int st closer = Inl (ValueError v)"
      using that unfolding step by (simp add: format_of_kv_def int_of_text_def get_or_def)
    then show ?thesis by (rule parse_formats_fails [OF assms(1,2)])
  qed
  have d: "parse_formats to_int text = Inl (ValueError v)"
    if "m (of_str ''body_max'') = Some v \<and> to_int v = None \<and>
        to_int (get_or m (of_str ''headline_max'') (of_str ''0'')) \<noteq> None" for v
  proof -
    have "fmt_step to_int st closer = Inl (ValueError v)"
      using that unfolding step
      by (auto simp: format_of_kv_def int_of_text_def get_or_def split: option.splits)
    then show ?thesis by (rule parse_formats_fails [OF assms(1,2)])
  qed
  from emitted a b c d show ?thesis by blast
qed

lemma splitlines_word_block:
  "splitlines word_block =
     [of_str ''FORMAT'', of_str ''id=f1'', of_str ''headline_max=abc''] @ of_str ''END'' # []"
  by (simp add: word_block_def str_defs)

lemma fmt_loop_word_block:
  "fmt_loop ascii_int fmt_init [of_str ''FORMAT'', of_str ''id=f1'', of_str ''headline_max=abc'']
     = Inr word_state"
  by (simp add: fmt_init_def fmt_step_def word_state_def str_defs)

lemma word_block_kv:
  "parse_key_values (join [10] (fmt_buffer word_state)) (of_str ''headline_max'')
     = Some (of_str ''abc'')"
  by (simp add: word_state_def parse_key_values_def kv_line_def str_defs)

lemma ascii_int_word: "ascii_int (of_str ''abc'') = None"
  by (simp add: ascii_int_def is_digit_def str_defs)

lemma splitlines_bare_block:
  "splitlines bare_block = [of_str ''FORMAT'', of_str ''id=f2''] @ of_str ''END'' # []"
  by (simp add: bare_block_def str_defs)

lemma fmt_loop_bare_block:
  "fmt_loop ascii_int fmt_init [of_str ''FORMAT'', of_str ''id=f2''] = Inr bare_state"
  by (simp add: fmt_init_def fmt_step_def bare_state_def str_defs)

lemma bare_block_kv:
  "parse_key_values (join [10] (fmt_buffer bare_state)) (of_str ''headline_max'') = None"
  "parse_key_values (join [10] (fmt_buffer bare_state)) (of_str ''body_max'') = None"
  by (simp_all add: bare_state_def parse_key_values_def kv_line_def str_defs)

lemma bare_block_limits:
  "limits_after (parse_formats ascii_int bare_block)
     = Inr [\<lparr> headline_max = 0, body_max = 0 \<rparr>]"
  by (simp add: limits_after_def parse_formats_def bare_block_def fmt_init_def fmt_step_def
      format_of_kv_def int_of_text_def parse_key_values_def kv_line_def get_or_def ascii_int_def
      is_digit_def str_defs)

lemma splitlines_half_block:
  "splitlines half_block =
     [of_str ''FORMAT'', of_str ''id=f3'', of_str ''headline_max=5''] @ of_str ''END'' # []"
  by (simp add: half_block_def str_defs)

lemma fmt_loop_half_block:
  "fmt_loop ascii_int fmt_init [of_str ''FORMAT'', of_str ''id=f3'', of_str ''headline_max=5'']
     = Inr half_state"
  by (simp add: fmt_init_def fmt_step_def half_state_def str_defs)

lemma half_block_kv:
  "parse_key_values (join [10] (fmt_buffer half_state)) (of_str ''headline_max'')
     = Some (of_str ''5'')"
  "parse_key_values (join [10] (fmt_buffer half_state)) (of_str ''body_max'') = None"
  by (simp_all add: half_state_def parse_key_values_def kv_line_def str_defs)

lemma ascii_int_five: "ascii_int (of_str ''5'') = Some 5"
  by (simp add: ascii_int_def is_digit_def str_defs)

lemma half_block_limits:
  "limits_after (parse_formats ascii_int half_block)
     = Inr [\<lparr> headline_max = 5, body_max = 0 \<rparr>]"
  by (simp add: limits_after_def parse_formats_def half_block_def fmt_init_def fmt_step_def
      format_of_kv_def int_of_text_def parse_key_values_def kv_line_def get_or_def ascii_int_def
      is_digit_def str_defs)

theorem parse_formats_maxima_witness:
  "ascii_int (of_str ''0'') = Some 0
   \<and> strip (of_str ''END'') = of_str ''END''
   \<and> splitlines word_block =
       [of_str ''FORMAT'', of_str ''id=f1'', of_str ''headline_max=abc''] @ of_str ''END'' # []
   \<and> fmt_loop ascii_int fmt_init
       [of_str ''FORMAT'', of_str ''id=f1'', of_str ''headline_max=abc''] = Inr word_state
   \<and> in_format word_state
   \<and> parse_key_values (join [10] (fmt_buffer word_state)) (of_str ''headline_max'')
       = Some (of_str ''abc'')
   \<and> ascii_int (of_str ''abc'') = None
   \<and> parse_formats ascii_int word_block = Inl (ValueError (of_str ''abc''))
   \<and> splitlines bare_block = [of_str ''FORMAT'', of_str ''id=f2''] @ of_str ''END'' # []
   \<and> fmt_loop ascii_int fmt_init [of_str ''FORMAT'', of_str ''id=f2''] = Inr bare_state
   \<and> in_format bare_state
   \<and> parse_key_values (join [10] (fmt_buffer bare_state)) (of_str ''headline_max'') = None
   \<and> parse_key_values (join [10] (fmt_buffer bare_state)) (of_str ''body_max'') = None
   \<and> (\<exists>st'. fmt_step ascii_int bare_state (of_str ''END'') = Inr st')
   \<and> limits_after (parse_formats ascii_int bare_block)
       = Inr [\<lparr> headline_max = 0, body_max = 0 \<rparr>]
   \<and> splitlines half_block =
       [of_str ''FORMAT'', of_str ''id=f3'', of_str ''headline_max=5''] @ of_str ''END'' # []
   \<and> fmt_loop ascii_int fmt_init
       [of_str ''FORMAT'', of_str ''id=f3'', of_str ''headline_max=5''] = Inr half_state
   \<and> in_format half_state
   \<and> parse_key_values (join [10] (fmt_buffer half_state)) (of_str ''headline_max'')
       = Some (of_str ''5'')
   \<and> parse_key_values (join [10] (fmt_buffer half_state)) (of_str ''body_max'') = None
   \<and> ascii_int (of_str ''5'') = Some 5
   \<and> (\<exists>f. fmt_loop ascii_int fmt_init
            ([of_str ''FORMAT'', of_str ''id=f3'', of_str ''headline_max=5''] @ [of_str ''END''])
            = Inr \<lparr> formats = formats half_state @ [f], fmt_buffer = [], in_format = False \<rparr> \<and>
          fr_limits f = \<lparr> headline_max = 5, body_max = 0 \<rparr>)
   \<and> limits_after (parse_formats ascii_int half_block)
       = Inr [\<lparr> headline_max = 5, body_max = 0 \<rparr>]"
proof -
  have i: "in_format word_state" by (simp add: word_state_def)
  have j: "in_format bare_state" by (simp add: bare_state_def)
  have k: "in_format half_state" by (simp add: half_state_def)
  have s: "strip (of_str ''END'') = of_str ''END''" by (simp add: str_defs)
  have word: "parse_formats ascii_int word_block = Inl (ValueError (of_str ''abc''))"
    using parse_formats_maxima
      [OF splitlines_word_block fmt_loop_word_block i s refl ascii_int_zero]
      word_block_kv ascii_int_word by blast
  have bare: "\<exists>st'. fmt_step ascii_int bare_state (of_str ''END'') = Inr st'"
    using parse_formats_maxima
      [OF splitlines_bare_block fmt_loop_bare_block j s refl ascii_int_zero]
      bare_block_kv by blast
  have half: "\<exists>f. fmt_loop ascii_int fmt_init
            ([of_str ''FORMAT'', of_str ''id=f3'', of_str ''headline_max=5''] @ [of_str ''END''])
            = Inr \<lparr> formats = formats half_state @ [f], fmt_buffer = [], in_format = False \<rparr> \<and>
          fr_limits f = \<lparr> headline_max = 5, body_max = 0 \<rparr>"
    using parse_formats_maxima
      [OF splitlines_half_block fmt_loop_half_block k s refl ascii_int_zero]
      half_block_kv ascii_int_five by blast
  from word bare half show ?thesis
    using splitlines_word_block fmt_loop_word_block i j k s word_block_kv ascii_int_word
      splitlines_bare_block fmt_loop_bare_block bare_block_kv bare_block_limits
      splitlines_half_block fmt_loop_half_block half_block_kv ascii_int_five half_block_limits
      ascii_int_zero
    by blast
qed

text \<open>
  Claim C9, as the spec states it, fails: a record whose \<open>headline_max\<close> is the word
  \<open>abc\<close> gets no limit 0; the parser fails with \<open>ValueError\<close>. (The word is ASCII and
  holds no digit: \<open>ascii_int\<close> refuses it as the builtin does.)
\<close>

theorem parse_formats_word_counterexample:
  "parse_formats ascii_int
     (of_str ''FORMAT'' @ [10] @ of_str ''id=f1'' @ [10] @ of_str ''headline_max=abc'' @ [10] @
      of_str ''END'')
   = Inl (ValueError (of_str ''abc''))"
  by (simp add: parse_formats_def fmt_init_def fmt_step_def format_of_kv_def int_of_text_def
      parse_key_values_def kv_line_def get_or_def ascii_int_def is_digit_def str_defs)

section \<open>Verification: the format-limit pass\<close>

lemma length_rstrip_le: "length (rstrip s) \<le> length s"
  using length_dropWhile_le [of is_space "rev s"] by (simp add: rstrip_def)

lemma rstrip_last: "rstrip s = [] \<or> \<not> is_space (last (rstrip s))"
proof (cases "dropWhile is_space (rev s)")
  case Nil
  then show ?thesis by (simp add: rstrip_def)
next
  case (Cons x xs)
  then have "\<not> is_space x" using hd_dropWhile [of is_space "rev s"] by simp
  with Cons show ?thesis by (simp add: rstrip_def)
qed

lemma slice_to_nonneg: "0 \<le> n \<Longrightarrow> slice_to s n = take (nat n) s"
  by (simp add: slice_to_def)

lemma length_cut_le: "0 \<le> n \<Longrightarrow> int (length (rstrip (take (nat n) s))) \<le> n"
proof -
  assume n: "0 \<le> n"
  have "length (rstrip (take (nat n) s)) \<le> length (take (nat n) s)" by (rule length_rstrip_le)
  also have "\<dots> \<le> nat n" by simp
  finally show ?thesis using n by linarith
qed

lemma limit_count_enforced:
  assumes "0 \<le> h" "0 \<le> b"
  shows "enforced h b c (count_copy (limit_copy h b c))"
  using assms length_cut_le [of h "get_default (cd_headline c) []"]
    length_cut_le [of b "get_default (cd_body c) []"]
    rstrip_last [of "take (nat h) (get_default (cd_headline c) [])"]
    rstrip_last [of "take (nat b) (get_default (cd_body c) [])"]
  by (simp add: enforced_def count_copy_def limit_copy_def Let_def slice_to_nonneg get_default_def)

lemma limit_copy_within:
  "int (length (get_default (cd_headline c) [])) \<le> h \<Longrightarrow>
   int (length (get_default (cd_body c) [])) \<le> b \<Longrightarrow> limit_copy h b c = c"
  by (simp add: limit_copy_def Let_def)

lemma final_copy_idem:
  assumes "0 \<le> h" "0 \<le> b"
  shows "count_copy (limit_copy h b (count_copy (limit_copy h b c))) = count_copy (limit_copy h b c)"
proof -
  let ?c = "count_copy (limit_copy h b c)"
  from limit_count_enforced [OF assms, of c]
  have "int (length (get_default (cd_headline ?c) [])) \<le> h"
    and "int (length (get_default (cd_body ?c) [])) \<le> b"
    by (simp_all add: enforced_def Let_def)
  then have "limit_copy h b ?c = ?c" by (rule limit_copy_within)
  moreover have "count_copy ?c = ?c"
    by (simp add: count_copy_def Let_def get_default_def)
  ultimately show ?thesis by simp
qed

lemma for_each_copy_twice:
  "for_each_copy f (for_each_copy g p) = for_each_copy (\<lambda>c. f (g c)) p"
  by (simp add: for_each_copy_def option.map_comp o_def)

lemma echoed_for_each_copy [simp]: "echoed_format_id (for_each_copy f p) = echoed_format_id p"
  by (simp add: echoed_format_id_def for_each_copy_def)

lemma for_each_copy_cong:
  assumes "\<And>c. f c = g c"
  shows "for_each_copy f p = for_each_copy g p"
proof -
  have "f = g" using assms by (simp add: fun_eq_iff)
  then show ?thesis by simp
qed

lemma copies_of_for_each_copy: "copies_of (for_each_copy f p) = map f (copies_of p)"
proof -
  have "get_default (map_option (map f) cs) [] = map f (get_default cs [])"
    for cs :: "copy_dict list option"
    by (cases cs) (simp_all add: get_default_def)
  then show ?thesis
    by (cases "pd_segments p") (simp_all add: copies_of_def for_each_copy_def get_default_def map_concat o_def)
qed

lemma ensure_found:
  assumes "fl (echoed_format_id p) = Some lims"
    and "map_of lims (of_str ''headline_max'') = Some h"
    and "map_of lims (of_str ''body_max'') = Some b"
  shows "ensure_format_limits p fl = Inr (for_each_copy (\<lambda>c. count_copy (limit_copy h b c)) p)"
proof -
  from assms(2) have "lims \<noteq> []" by auto
  with assms show ?thesis
    by (simp add: ensure_format_limits_def enforce_char_counts_def for_each_copy_twice)
qed

lemma list_all2_map_same: "(\<And>x. R x (f x)) \<Longrightarrow> list_all2 R xs (map f xs)"
  by (simp add: list_all2_map2 list_all2_same)

named_theorems pass_defs

declare ensure_format_limits_def [pass_defs]
declare enforce_char_counts_def [pass_defs]
declare for_each_copy_def [pass_defs]
declare limit_copy_def [pass_defs]
declare count_copy_def [pass_defs]
declare get_default_def [pass_defs]
declare echoed_format_id_def [pass_defs]
declare payload_with_def [pass_defs]
declare limits_for_f1_def [pass_defs]
declare slice_to_def [pass_defs]
declare copies_of_def [pass_defs]
declare ensure_twice_def [pass_defs]
declare headlines_after_def [pass_defs]
declare Let_def [pass_defs]

lemma ensure_twice_once:
  assumes "nonneg_limits (fl (echoed_format_id p))"
  shows "ensure_twice p fl = ensure_format_limits p fl"
proof (cases "fl (echoed_format_id p)")
  case None
  then show ?thesis by (simp add: ensure_twice_def ensure_format_limits_def)
next
  case (Some lims)
  show ?thesis
  proof (cases "lims = []")
    case True
    with Some show ?thesis by (simp add: ensure_twice_def ensure_format_limits_def)
  next
    case False
    show ?thesis
    proof (cases "map_of lims (of_str ''headline_max'')")
      case None
      with Some False show ?thesis by (simp add: ensure_twice_def ensure_format_limits_def)
    next
      case h: (Some h)
      show ?thesis
      proof (cases "map_of lims (of_str ''body_max'')")
        case None
        with Some False h show ?thesis by (simp add: ensure_twice_def ensure_format_limits_def)
      next
        case b: (Some b)
        from assms Some h b have nn: "0 \<le> h" "0 \<le> b" by (simp_all add: nonneg_limits_def)
        let ?g = "\<lambda>c. count_copy (limit_copy h b c)"
        have 1: "ensure_format_limits p fl = Inr (for_each_copy ?g p)"
          by (rule ensure_found [of fl p, OF Some h b])
        have "fl (echoed_format_id (for_each_copy ?g p)) = Some lims" using Some by simp
        then have 2: "ensure_format_limits (for_each_copy ?g p) fl
            = Inr (for_each_copy ?g (for_each_copy ?g p))"
          by (rule ensure_found [of fl _ lims, OF _ h b])
        have "for_each_copy ?g (for_each_copy ?g p) = for_each_copy ?g p"
          unfolding for_each_copy_twice
          by (rule for_each_copy_cong) (rule final_copy_idem [OF nn])
        with 1 2 show ?thesis by (simp add: ensure_twice_def)
      qed
    qed
  qed
qed

text \<open>
  Claim C6, as the code has it. When the maxima of the echoed format are not negative,
  running the pass on its own result changes nothing: the second run returns what the
  first returned (a payload, or the same error). This covers a format without an entry,
  an empty entry and an entry that lacks a key. In particular, a payload that the pass
  returned is returned unchanged, with no further flag, when the pass runs on it again.
\<close>

theorem ensure_format_limits_idempotent:
  assumes "nonneg_limits (fl (echoed_format_id p))"
  shows "ensure_twice p fl = ensure_format_limits p fl \<and>
     (\<forall>p'. ensure_format_limits p fl = Inr p' \<longrightarrow> ensure_format_limits p' fl = Inr p')"
proof -
  note twice = ensure_twice_once [of fl p, OF assms]
  have "ensure_format_limits p' fl = Inr p'" if "ensure_format_limits p fl = Inr p'" for p'
    using twice that by (simp add: ensure_twice_def)
  with twice show ?thesis by blast
qed

theorem ensure_format_limits_idempotent_witness:
  "nonneg_limits
     (limits_for_f1 10 90 (echoed_format_id (payload_with long_headline (of_str ''body''))))
   \<and> ensure_twice (payload_with long_headline (of_str ''body'')) (limits_for_f1 10 90)
       = ensure_format_limits (payload_with long_headline (of_str ''body'')) (limits_for_f1 10 90)"
proof -
  have n: "nonneg_limits
     (limits_for_f1 10 90 (echoed_format_id (payload_with long_headline (of_str ''body''))))"
    by (simp add: nonneg_limits_def limits_for_f1_def echoed_format_id_def payload_with_def
        get_default_def of_str_def)
  from n ensure_format_limits_idempotent
    [of "limits_for_f1 10 90" "payload_with long_headline (of_str ''body'')", OF n]
  show ?thesis by blast
qed

text \<open>
  Claim C6, as the spec states it for every limits mapping, fails for a negative maximum:
  with \<open>headline_max = -1\<close> every run cuts one more character off the headline \<open>abc\<close>
  and appends one more flag, so the second run does not return what the first returned.
\<close>

theorem ensure_format_limits_idempotent_counterexample:
  "headlines_after
     (ensure_format_limits (payload_with (of_str ''abc'') (of_str ''body''))
        (limits_for_f1 (- 1) 90))
     = Inr [Some (of_str ''ab'')]
   \<and> headlines_after
       (ensure_twice (payload_with (of_str ''abc'') (of_str ''body'')) (limits_for_f1 (- 1) 90))
     = Inr [Some (of_str ''a'')]
   \<and> ensure_twice (payload_with (of_str ''abc'') (of_str ''body'')) (limits_for_f1 (- 1) 90)
     \<noteq> ensure_format_limits (payload_with (of_str ''abc'') (of_str ''body''))
         (limits_for_f1 (- 1) 90)"
  by (simp add: pass_defs str_defs)

text \<open>
  Claim C7, as the code has it. A payload whose echoed format id has no entry is
  returned unchanged. When the entry holds both maxima and neither is negative, the pass
  returns a payload with the same copy variants in the same order, each related to its
  original as \<open>enforced\<close> says: a text longer than its maximum is cut to the maximum and
  stripped of trailing whitespace, a \<open>format_overflow\<close> flag is appended to a variant that
  was cut, and the character counts are the lengths of the final texts.
\<close>

theorem ensure_format_limits_enforces:
  "(fl (echoed_format_id p) = None \<longrightarrow> ensure_format_limits p fl = Inr p) \<and>
   (\<forall>lims h b.
      fl (echoed_format_id p) = Some lims \<and>
      map_of lims (of_str ''headline_max'') = Some h \<and>
      map_of lims (of_str ''body_max'') = Some b \<and> 0 \<le> h \<and> 0 \<le> b \<longrightarrow>
      (\<exists>p'. ensure_format_limits p fl = Inr p' \<and>
         pd_input_echo p' = pd_input_echo p \<and> pd_other p' = pd_other p \<and>
         list_all2 (enforced h b) (copies_of p) (copies_of p')))"
proof -
  have none: "ensure_format_limits p fl = Inr p" if "fl (echoed_format_id p) = None"
    using that by (simp add: ensure_format_limits_def)
  have found: "\<exists>p'. ensure_format_limits p fl = Inr p' \<and>
         pd_input_echo p' = pd_input_echo p \<and> pd_other p' = pd_other p \<and>
         list_all2 (enforced h b) (copies_of p) (copies_of p')"
    if "fl (echoed_format_id p) = Some lims"
      and "map_of lims (of_str ''headline_max'') = Some h"
      and "map_of lims (of_str ''body_max'') = Some b"
      and "0 \<le> h" and "0 \<le> b" for lims h b
  proof -
    let ?g = "\<lambda>c. count_copy (limit_copy h b c)"
    have "ensure_format_limits p fl = Inr (for_each_copy ?g p)"
      by (rule ensure_found [of fl p, OF that(1,2,3)])
    moreover have "list_all2 (enforced h b) (copies_of p) (copies_of (for_each_copy ?g p))"
      unfolding copies_of_for_each_copy
      by (rule list_all2_map_same) (rule limit_count_enforced [OF that(4,5)])
    moreover have "pd_input_echo (for_each_copy ?g p) = pd_input_echo p"
      and "pd_other (for_each_copy ?g p) = pd_other p"
      by (simp_all add: for_each_copy_def)
    ultimately show ?thesis by blast
  qed
  from none found show ?thesis by blast
qed

lemma sample_pass_result:
  "headlines_after
     (ensure_format_limits (payload_with long_headline (of_str ''body'')) (limits_for_f1 10 90))
   = Inr [Some (of_str ''ab cdefgh'')]"
  by (simp add: pass_defs long_headline_def str_defs)

theorem ensure_format_limits_enforces_witness:
  "limits_for_f1 10 90 (echoed_format_id (payload_with long_headline (of_str ''body'')))
     = Some [(of_str ''headline_max'', 10), (of_str ''body_max'', 90)]
   \<and> map_of [(of_str ''headline_max'', 10), (of_str ''body_max'', 90)] (of_str ''headline_max'')
       = Some (10 :: int)
   \<and> map_of [(of_str ''headline_max'', 10), (of_str ''body_max'', 90)] (of_str ''body_max'')
       = Some (90 :: int)
   \<and> (0 :: int) \<le> 10 \<and> (0 :: int) \<le> 90
   \<and> (\<exists>p'. ensure_format_limits (payload_with long_headline (of_str ''body''))
               (limits_for_f1 10 90) = Inr p' \<and>
            list_all2 (enforced 10 90)
              (copies_of (payload_with long_headline (of_str ''body''))) (copies_of p'))
   \<and> headlines_after
        (ensure_format_limits (payload_with long_headline (of_str ''body''))
           (limits_for_f1 10 90))
       = Inr [Some (of_str ''ab cdefgh'')]
   \<and> (\<lambda>format_id. None) (echoed_format_id (payload_with long_headline (of_str ''body'')))
       = (None :: (pystr \<times> int) list option)
   \<and> ensure_format_limits (payload_with long_headline (of_str ''body'')) (\<lambda>format_id. None)
       = Inr (payload_with long_headline (of_str ''body''))"
proof -
  let ?p = "payload_with long_headline (of_str ''body'')"
  let ?lims = "[(of_str ''headline_max'', 10 :: int), (of_str ''body_max'', 90)]"
  have e: "limits_for_f1 10 90 (echoed_format_id ?p) = Some ?lims"
    by (simp add: limits_for_f1_def echoed_format_id_def payload_with_def get_default_def)
  have h: "map_of ?lims (of_str ''headline_max'') = Some 10"
    and b: "map_of ?lims (of_str ''body_max'') = Some 90"
    by (simp_all add: of_str_def)
  have found: "\<exists>p'. ensure_format_limits ?p (limits_for_f1 10 90) = Inr p' \<and>
      list_all2 (enforced 10 90) (copies_of ?p) (copies_of p')"
    using ensure_format_limits_enforces [of "limits_for_f1 10 90" ?p] e h b by fastforce
  have none: "ensure_format_limits ?p (\<lambda>format_id. None) = Inr ?p"
    using ensure_format_limits_enforces [of "\<lambda>format_id. None" ?p] by simp
  from e h b found none sample_pass_result show ?thesis by simp
qed

text \<open>
  Claim C7, as the spec states it for every limits mapping, fails for a negative maximum:
  with \<open>headline_max = -1\<close> the headline \<open>abc\<close> exceeds the maximum and is cut to \<open>ab\<close>,
  which is still longer than the maximum.
\<close>

theorem ensure_format_limits_enforces_counterexample:
  "headlines_after
     (ensure_format_limits (payload_with (of_str ''abc'') (of_str ''body''))
        (limits_for_f1 (- 1) 90))
   = Inr [Some (of_str ''ab'')]
   \<and> - 1 < int (length (of_str ''abc'')) \<and> - 1 < int (length (of_str ''ab''))"
  by (simp add: pass_defs str_defs)

section \<open>Verification: the response schema\<close>

named_theorems schema_defs

declare SegCraftResponse_validate_def [schema_defs]
declare SegCraftResponse_fields_def [schema_defs]
declare validate_lengths_def [schema_defs]
declare InputEcho_validate_def [schema_defs]
declare ExecSummary_validate_def [schema_defs]
declare ExportHints_validate_def [schema_defs]
declare GlobalRiskItem_validate_def [schema_defs]
declare QuestionItem_validate_def [schema_defs]
declare SegmentOutput_validate_def [schema_defs]
declare CopyVariant_validate_def [schema_defs]
declare CopyVariant_fields_def [schema_defs]
declare sync_char_count_def [schema_defs]
declare RiskFlag_validate_def [schema_defs]
declare CharCount_validate_def [schema_defs]
declare v_version_def [schema_defs]
declare ascii_version_def [schema_defs]
declare v_tone_def [schema_defs]
declare v_priority_def [schema_defs]
declare then_apply_def [schema_defs]
declare v_model_def [schema_defs]
declare v_list_def [schema_defs]
declare v_int_range_def [schema_defs]
declare v_int_ge_def [schema_defs]
declare v_int_def [schema_defs]
declare v_str_def [schema_defs]
declare strict_int_def [schema_defs]
declare field_def [schema_defs]
declare field_default_def [schema_defs]
declare ap_def [schema_defs]
declare under_def [schema_defs]
declare fail_def [schema_defs]
declare is_digit_def [schema_defs]
declare Let_def [schema_defs]
declare response_json_def [schema_defs]
declare response_items_def [schema_defs]
declare segment_json_def [schema_defs]
declare copy_json_def [schema_defs]
declare counts_json_def [schema_defs]
declare miscounted_copy_def [schema_defs]
declare uncounted_copy_def [schema_defs]
declare validated_response_def [schema_defs]
declare validated_copy_def [schema_defs]


subsection \<open>When a validation step succeeds, and when it fails\<close>

lemma ap_Inr_iff: "ap f x = Inr y \<longleftrightarrow> (\<exists>g a. f = Inr g \<and> x = Inr a \<and> y = g a)"
  by (auto simp: ap_def split: sum.splits)

lemma under_Inr_iff: "under i r = Inr a \<longleftrightarrow> r = Inr a"
  by (auto simp: under_def split: sum.splits)

lemma field_Inr_iff:
  "field k v obj = Inr a \<longleftrightarrow> (\<exists>j. map_of obj k = Some j \<and> v j = Inr a)"
  by (auto simp: field_def under_Inr_iff split: option.splits)

lemma then_apply_Inr_iff: "then_apply f r = Inr a \<longleftrightarrow> (\<exists>b. r = Inr b \<and> a = f b)"
  by (auto simp: then_apply_def split: sum.splits)

lemma v_model_Inr_iff: "v_model f j = Inr a \<longleftrightarrow> (\<exists>obj. j = JObj obj \<and> f obj = Inr a)"
  by (cases j) (auto simp: v_model_def fail_def)

lemma v_list_Inr_iff: "v_list v j = Inr xs \<longleftrightarrow> (\<exists>js. j = JArr js \<and> list_items v 0 js = Inr xs)"
  by (cases j) (auto simp: v_list_def fail_def)

lemma list_items_Inr:
  "list_items v i js = Inr xs \<Longrightarrow> list_all2 (\<lambda>j x. v j = Inr x) js xs"
proof (induction js arbitrary: i xs)
  case Nil
  then show ?case by simp
next
  case (Cons j js)
  then show ?case by (auto simp: ap_Inr_iff under_Inr_iff)
qed

lemma list_items_member:
  assumes "list_items v i js = Inr xs" and "x \<in> set xs"
  shows "\<exists>j\<in>set js. v j = Inr x"
proof -
  from list_items_Inr [OF assms(1)] have a: "list_all2 (\<lambda>j x. v j = Inr x) js xs" .
  from assms(2) obtain n where n: "n < length xs" "x = xs ! n"
    by (auto simp: in_set_conv_nth)
  from a n have "js ! n \<in> set js" and "v (js ! n) = Inr x"
    by (simp_all add: list_all2_conv_all_nth)
  then show ?thesis by blast
qed

lemma ap_isl: "isl (ap f x) \<longleftrightarrow> isl f \<or> isl x"
  by (auto simp: ap_def split: sum.splits)

lemma under_isl: "isl (under i r) \<longleftrightarrow> isl r"
  by (auto simp: under_def split: sum.splits)

lemma field_isl:
  "isl (field k v obj) \<longleftrightarrow> (case map_of obj k of None \<Rightarrow> True | Some j \<Rightarrow> isl (v j))"
  by (auto simp: field_def under_isl split: option.splits)

lemma list_items_isl: "j \<in> set js \<Longrightarrow> isl (v j) \<Longrightarrow> isl (list_items v i js)"
  by (induction js arbitrary: i) (auto simp: ap_isl under_isl)

lemma v_list_isl: "j \<in> set js \<Longrightarrow> isl (v j) \<Longrightarrow> isl (v_list v (JArr js))"
  by (simp add: v_list_def list_items_isl)

subsection \<open>Copy variants and segments of a validated response\<close>

lemma CopyVariant_validate_synced:
  assumes "CopyVariant_validate as_int j = Inr c"
  shows "cv_char_count c =
     \<lparr> cc_headline = int (length (cv_headline c)), cc_body = int (length (cv_body c)) \<rparr>"
  using assms
  by (auto simp: CopyVariant_validate_def v_model_Inr_iff then_apply_Inr_iff sync_char_count_def)

lemma SegmentOutput_validate_copies:
  assumes "SegmentOutput_validate as_int j = Inr s" and "c \<in> set (so_copies s)"
  shows "\<exists>cj. CopyVariant_validate as_int cj = Inr c"
proof -
  from assms(1) obtain obj cs where
    "field (of_str ''copies'') (v_list (CopyVariant_validate as_int)) obj = Inr cs"
    and "so_copies s = cs"
    by (auto simp: SegmentOutput_validate_def v_model_Inr_iff ap_Inr_iff)
  then obtain js where "list_items (CopyVariant_validate as_int) 0 js = Inr (so_copies s)"
    by (auto simp: field_Inr_iff v_list_Inr_iff)
  from list_items_member [OF this assms(2)] show ?thesis by blast
qed

lemma validate_lengths_Inr_iff:
  "validate_lengths r0 = Inr r \<longleftrightarrow>
     r = r0 \<and>
     (\<forall>s\<in>set (r_segments r0).
        int (length (so_copies s)) = ie_variants_per_segment (r_input_echo r0))"
proof (cases "find (\<lambda>s. int (length (so_copies s)) \<noteq> ie_variants_per_segment (r_input_echo r0))
    (r_segments r0)")
  case None
  then have "validate_lengths r0 = Inr r0"
    by (simp add: validate_lengths_def Let_def)
  moreover from None have "\<forall>s\<in>set (r_segments r0).
      int (length (so_copies s)) = ie_variants_per_segment (r_input_echo r0)"
    by (simp add: find_None_iff)
  ultimately show ?thesis by auto
next
  case (Some s)
  then have "validate_lengths r0 \<noteq> Inr r"
    by (simp add: validate_lengths_def Let_def fail_def)
  moreover from Some have "s \<in> set (r_segments r0)"
    and "int (length (so_copies s)) \<noteq> ie_variants_per_segment (r_input_echo r0)"
    by (auto simp: find_Some_iff)
  ultimately show ?thesis by blast
qed

lemma SegCraftResponse_validate_Inr:
  assumes "SegCraftResponse_validate as_int version_ok payload = Inr r"
  shows "\<exists>obj. payload = JObj obj \<and> SegCraftResponse_fields as_int version_ok obj = Inr r \<and>
           validate_lengths r = Inr r"
proof -
  from assms obtain obj where obj: "payload = JObj obj"
    and v: "(case SegCraftResponse_fields as_int version_ok obj of
               Inl es \<Rightarrow> Inl es | Inr r0 \<Rightarrow> validate_lengths r0) = Inr r"
    by (auto simp: SegCraftResponse_validate_def v_model_Inr_iff)
  from v obtain r0 where r0: "SegCraftResponse_fields as_int version_ok obj = Inr r0"
    and l: "validate_lengths r0 = Inr r"
    by (auto split: sum.splits)
  from l have "r = r0" by (simp add: validate_lengths_Inr_iff)
  with obj r0 l show ?thesis by simp
qed

lemma SegCraftResponse_fields_segments:
  assumes "SegCraftResponse_fields as_int version_ok obj = Inr r" and "s \<in> set (r_segments r)"
  shows "\<exists>sj. SegmentOutput_validate as_int sj = Inr s"
proof -
  from assms(1) obtain ss where
    "field (of_str ''segments'') (v_list (SegmentOutput_validate as_int)) obj = Inr ss"
    and "r_segments r = ss"
    by (auto simp: SegCraftResponse_fields_def ap_Inr_iff)
  then obtain js where "list_items (SegmentOutput_validate as_int) 0 js = Inr (r_segments r)"
    by (auto simp: field_Inr_iff v_list_Inr_iff)
  from list_items_member [OF this assms(2)] show ?thesis by blast
qed

subsection \<open>Claims about the validator\<close>

text \<open>
  Claim C1, as the code has it. In every response that the validator accepts, every
  segment has exactly \<open>variants_per_segment\<close> copies. A payload whose fields validate
  and in which some segment has another number of copies is rejected with one error, a
  value error whose message is built from \<open>variants_per_segment\<close> and the identifier of
  the first offending segment (every segment before it has the right number of copies),
  and from nothing else.
\<close>

theorem validate_lengths_enforced:
  "(SegCraftResponse_validate as_int version_ok payload = Inr r \<longrightarrow>
      (\<forall>s\<in>set (r_segments r).
         int (length (so_copies s)) = ie_variants_per_segment (r_input_echo r))) \<and>
   (\<forall>obj r0.
      payload = JObj obj \<and> SegCraftResponse_fields as_int version_ok obj = Inr r0 \<and>
      (\<exists>s\<in>set (r_segments r0).
         int (length (so_copies s)) \<noteq> ie_variants_per_segment (r_input_echo r0)) \<longrightarrow>
      (\<exists>i<length (r_segments r0).
         int (length (so_copies (r_segments r0 ! i))) \<noteq>
           ie_variants_per_segment (r_input_echo r0) \<and>
         (\<forall>j<i. int (length (so_copies (r_segments r0 ! j))) =
                  ie_variants_per_segment (r_input_echo r0)) \<and>
         find (\<lambda>s. int (length (so_copies s)) \<noteq> ie_variants_per_segment (r_input_echo r0))
           (r_segments r0) = Some (r_segments r0 ! i) \<and>
         SegCraftResponse_validate as_int version_ok payload =
           Inl [([], value_error
                  (lengths_message (ie_variants_per_segment (r_input_echo r0))
                     (so_segment_id (r_segments r0 ! i))))]))"
proof -
  have accepted: "\<forall>s\<in>set (r_segments r).
      int (length (so_copies s)) = ie_variants_per_segment (r_input_echo r)"
    if "SegCraftResponse_validate as_int version_ok payload = Inr r"
    using SegCraftResponse_validate_Inr [OF that] by (auto simp: validate_lengths_Inr_iff)
  have rejected: "\<exists>i<length (r_segments r0).
      int (length (so_copies (r_segments r0 ! i))) \<noteq>
        ie_variants_per_segment (r_input_echo r0) \<and>
      (\<forall>j<i. int (length (so_copies (r_segments r0 ! j))) =
               ie_variants_per_segment (r_input_echo r0)) \<and>
      find (\<lambda>s. int (length (so_copies s)) \<noteq> ie_variants_per_segment (r_input_echo r0))
        (r_segments r0) = Some (r_segments r0 ! i) \<and>
      SegCraftResponse_validate as_int version_ok payload =
        Inl [([], value_error
               (lengths_message (ie_variants_per_segment (r_input_echo r0))
                  (so_segment_id (r_segments r0 ! i))))]"
    if p: "payload = JObj obj"
      and f: "SegCraftResponse_fields as_int version_ok obj = Inr r0"
      and m: "\<exists>s\<in>set (r_segments r0).
         int (length (so_copies s)) \<noteq> ie_variants_per_segment (r_input_echo r0)"
    for obj r0
  proof -
    let ?P = "\<lambda>s. int (length (so_copies s)) \<noteq> ie_variants_per_segment (r_input_echo r0)"
    from m have "find ?P (r_segments r0) \<noteq> None"
      by (auto simp: find_None_iff)
    then obtain s where s: "find ?P (r_segments r0) = Some s" by blast
    then obtain i where i: "i < length (r_segments r0)" "?P (r_segments r0 ! i)"
      "s = r_segments r0 ! i" "\<forall>j<i. \<not> ?P (r_segments r0 ! j)"
      unfolding find_Some_iff by blast
    from s have "validate_lengths r0 =
        Inl [([], value_error
               (lengths_message (ie_variants_per_segment (r_input_echo r0)) (so_segment_id s)))]"
      by (simp add: validate_lengths_def Let_def fail_def)
    with p f have "SegCraftResponse_validate as_int version_ok payload =
        Inl [([], value_error
               (lengths_message (ie_variants_per_segment (r_input_echo r0)) (so_segment_id s)))]"
      by (simp add: SegCraftResponse_validate_def v_model_def)
    with s i show ?thesis by auto
  qed
  from accepted rejected show ?thesis by blast
qed

lemma sample_fields_two_copies:
  "SegCraftResponse_fields strict_int ascii_version
     (response_items 1 [segment_json (of_str ''s1'') [miscounted_copy, miscounted_copy]])
   = Inr (validated_response 1 [validated_copy, validated_copy])"
  by (simp add: schema_defs of_str_def)

lemma sample_fields_both_offend:
  "SegCraftResponse_fields strict_int ascii_version
     (response_items 1 [segment_json (of_str ''s1'') [miscounted_copy, miscounted_copy],
                        segment_json (of_str ''s2'') []])
   = Inr (validated_with_segments 1
            [validated_segment (of_str ''s1'') [validated_copy, validated_copy],
             validated_segment (of_str ''s2'') []])"
  by (simp add: schema_defs validated_with_segments_def validated_segment_def of_str_def)

lemma sample_fields_second_offends:
  "SegCraftResponse_fields strict_int ascii_version
     (response_items 1 [segment_json (of_str ''s1'') [miscounted_copy],
                        segment_json (of_str ''s2'') []])
   = Inr (validated_with_segments 1
            [validated_segment (of_str ''s1'') [validated_copy],
             validated_segment (of_str ''s2'') []])"
  by (simp add: schema_defs validated_with_segments_def validated_segment_def of_str_def)

lemma sample_first_offender:
  assumes "\<exists>i<length (r_segments r0).
      find (\<lambda>s. int (length (so_copies s)) \<noteq> ie_variants_per_segment (r_input_echo r0))
        (r_segments r0) = Some (r_segments r0 ! i) \<and>
      v = Inl [([], value_error
                 (lengths_message (ie_variants_per_segment (r_input_echo r0))
                    (so_segment_id (r_segments r0 ! i))))]"
    and "find (\<lambda>s. int (length (so_copies s)) \<noteq> ie_variants_per_segment (r_input_echo r0))
        (r_segments r0) = Some s"
  shows "v = Inl [([], value_error
                 (lengths_message (ie_variants_per_segment (r_input_echo r0))
                    (so_segment_id s)))]"
  using assms by auto

theorem validate_lengths_enforced_witness:
  "SegCraftResponse_validate strict_int ascii_version
     (response_json 1 [segment_json (of_str ''s1'') [miscounted_copy]])
     = Inr (validated_response 1 [validated_copy])
   \<and> map (\<lambda>s. int (length (so_copies s))) (r_segments (validated_response 1 [validated_copy]))
       = [ie_variants_per_segment (r_input_echo (validated_response 1 [validated_copy]))]
   \<and> SegCraftResponse_fields strict_int ascii_version
       (response_items 1 [segment_json (of_str ''s1'') [miscounted_copy, miscounted_copy]])
       = Inr (validated_response 1 [validated_copy, validated_copy])
   \<and> SegCraftResponse_validate strict_int ascii_version
       (response_json 1 [segment_json (of_str ''s1'') [miscounted_copy, miscounted_copy]])
       = Inl [([], value_error (lengths_message 1 (of_str ''s1'')))]
   \<and> SegCraftResponse_fields strict_int ascii_version
       (response_items 1 [segment_json (of_str ''s1'') [miscounted_copy, miscounted_copy],
                          segment_json (of_str ''s2'') []])
       = Inr (validated_with_segments 1
                [validated_segment (of_str ''s1'') [validated_copy, validated_copy],
                 validated_segment (of_str ''s2'') []])
   \<and> SegCraftResponse_validate strict_int ascii_version
       (response_json 1 [segment_json (of_str ''s1'') [miscounted_copy, miscounted_copy],
                         segment_json (of_str ''s2'') []])
       = Inl [([], value_error (lengths_message 1 (of_str ''s1'')))]
   \<and> SegCraftResponse_fields strict_int ascii_version
       (response_items 1 [segment_json (of_str ''s1'') [miscounted_copy],
                          segment_json (of_str ''s2'') []])
       = Inr (validated_with_segments 1
                [validated_segment (of_str ''s1'') [validated_copy],
                 validated_segment (of_str ''s2'') []])
   \<and> SegCraftResponse_validate strict_int ascii_version
       (response_json 1 [segment_json (of_str ''s1'') [miscounted_copy],
                         segment_json (of_str ''s2'') []])
       = Inl [([], value_error (lengths_message 1 (of_str ''s2'')))]"
proof -
  let ?ok = "response_json 1 [segment_json (of_str ''s1'') [miscounted_copy]]"
  let ?bad = "response_json 1 [segment_json (of_str ''s1'') [miscounted_copy, miscounted_copy]]"
  let ?both = "response_json 1 [segment_json (of_str ''s1'') [miscounted_copy, miscounted_copy],
                                segment_json (of_str ''s2'') []]"
  let ?second = "response_json 1 [segment_json (of_str ''s1'') [miscounted_copy],
                                  segment_json (of_str ''s2'') []]"
  let ?rboth = "validated_with_segments 1
      [validated_segment (of_str ''s1'') [validated_copy, validated_copy],
       validated_segment (of_str ''s2'') []]"
  let ?rsecond = "validated_with_segments 1
      [validated_segment (of_str ''s1'') [validated_copy],
       validated_segment (of_str ''s2'') []]"
  have a: "SegCraftResponse_validate strict_int ascii_version ?ok
      = Inr (validated_response 1 [validated_copy])"
    by (simp add: schema_defs of_str_def)
  from validate_lengths_enforced
    [of strict_int ascii_version ?ok "validated_response 1 [validated_copy]"] a
  have b: "map (\<lambda>s. int (length (so_copies s))) (r_segments (validated_response 1 [validated_copy]))
       = [ie_variants_per_segment (r_input_echo (validated_response 1 [validated_copy]))]"
    by (simp add: validated_response_def)
  from validate_lengths_enforced [of strict_int ascii_version ?bad] sample_fields_two_copies
  have c: "SegCraftResponse_validate strict_int ascii_version ?bad
       = Inl [([], value_error (lengths_message 1 (of_str ''s1'')))]"
    by (simp add: response_json_def validated_response_def)
  have fb: "find (\<lambda>s. int (length (so_copies s)) \<noteq> ie_variants_per_segment (r_input_echo ?rboth))
      (r_segments ?rboth) = Some (validated_segment (of_str ''s1'') [validated_copy, validated_copy])"
    by (simp add: validated_with_segments_def validated_response_def validated_segment_def)
  have fs: "find (\<lambda>s. int (length (so_copies s)) \<noteq> ie_variants_per_segment (r_input_echo ?rsecond))
      (r_segments ?rsecond) = Some (validated_segment (of_str ''s2'') [])"
    by (simp add: validated_with_segments_def validated_response_def validated_segment_def)
  have mb: "\<exists>s\<in>set (r_segments ?rboth).
      int (length (so_copies s)) \<noteq> ie_variants_per_segment (r_input_echo ?rboth)"
    by (simp add: validated_with_segments_def validated_response_def validated_segment_def)
  have ms: "\<exists>s\<in>set (r_segments ?rsecond).
      int (length (so_copies s)) \<noteq> ie_variants_per_segment (r_input_echo ?rsecond)"
    by (simp add: validated_with_segments_def validated_response_def validated_segment_def)
  from validate_lengths_enforced [of strict_int ascii_version ?both]
    sample_fields_both_offend mb
  have "\<exists>i<length (r_segments ?rboth).
      find (\<lambda>s. int (length (so_copies s)) \<noteq> ie_variants_per_segment (r_input_echo ?rboth))
        (r_segments ?rboth) = Some (r_segments ?rboth ! i) \<and>
      SegCraftResponse_validate strict_int ascii_version ?both =
        Inl [([], value_error
               (lengths_message (ie_variants_per_segment (r_input_echo ?rboth))
                  (so_segment_id (r_segments ?rboth ! i))))]"
    unfolding response_json_def by blast
  from sample_first_offender [OF this fb]
  have d: "SegCraftResponse_validate strict_int ascii_version ?both
       = Inl [([], value_error (lengths_message 1 (of_str ''s1'')))]"
    by (simp add: validated_with_segments_def validated_response_def validated_segment_def)
  from validate_lengths_enforced [of strict_int ascii_version ?second]
    sample_fields_second_offends ms
  have "\<exists>i<length (r_segments ?rsecond).
      find (\<lambda>s. int (length (so_copies s)) \<noteq> ie_variants_per_segment (r_input_echo ?rsecond))
        (r_segments ?rsecond) = Some (r_segments ?rsecond ! i) \<and>
      SegCraftResponse_validate strict_int ascii_version ?second =
        Inl [([], value_error
               (lengths_message (ie_variants_per_segment (r_input_echo ?rsecond))
                  (so_segment_id (r_segments ?rsecond ! i))))]"
    unfolding response_json_def by blast
  from sample_first_offender [OF this fs]
  have e: "SegCraftResponse_validate strict_int ascii_version ?second
       = Inl [([], value_error (lengths_message 1 (of_str ''s2'')))]"
    by (simp add: validated_with_segments_def validated_response_def validated_segment_def)
  from a b c d e sample_fields_two_copies sample_fields_both_offend sample_fields_second_offends
  show ?thesis by simp
qed

text \<open>
  Claim C1, as the spec states it, fails in one point: the error does not name both
  counts. With \<open>variants_per_segment = 1\<close>, the segment \<open>s1\<close> is rejected with the same
  error whether it has no copy or two copies, and the message holds the count 1 and the
  identifier only.
\<close>

theorem validate_lengths_message_counterexample:
  "SegCraftResponse_validate strict_int ascii_version
     (response_json 1 [segment_json (of_str ''s1'') []])
     = Inl [([], value_error (lengths_message 1 (of_str ''s1'')))]
   \<and> SegCraftResponse_validate strict_int ascii_version
       (response_json 1 [segment_json (of_str ''s1'') [miscounted_copy, miscounted_copy]])
     = Inl [([], value_error (lengths_message 1 (of_str ''s1'')))]
   \<and> lengths_message 1 (of_str ''s1'') =
       of_str ''copies.length '' @
       [1076, 1086, 1083, 1078, 1085, 1072, 32, 1089, 1086, 1074, 1087, 1072, 1076, 1072, 1090,
        1100, 32, 1089, 32] @
       of_str ''variants_per_segment (1) '' @ [1076, 1083, 1103, 32] @ of_str ''segment_id=s1''"
  by (simp add: schema_defs lengths_message_def str_int_def str_nat.simps of_str_def)

text \<open>
  Claim C2. In every response that the validator accepts, the \<open>char_count\<close> of every copy
  variant is the pair of the lengths of its headline and its body, whatever counts the
  payload supplied.
\<close>

theorem char_count_recomputed:
  assumes "SegCraftResponse_validate as_int version_ok payload = Inr r"
  shows "\<forall>s\<in>set (r_segments r). \<forall>c\<in>set (so_copies s).
           cv_char_count c =
             \<lparr> cc_headline = int (length (cv_headline c)), cc_body = int (length (cv_body c)) \<rparr>"
proof (intro ballI)
  fix s c
  assume s: "s \<in> set (r_segments r)" and c: "c \<in> set (so_copies s)"
  from SegCraftResponse_validate_Inr [OF assms] obtain obj
    where "SegCraftResponse_fields as_int version_ok obj = Inr r" by blast
  from SegCraftResponse_fields_segments [OF this s] obtain sj
    where "SegmentOutput_validate as_int sj = Inr s" by blast
  from SegmentOutput_validate_copies [OF this c] obtain cj
    where "CopyVariant_validate as_int cj = Inr c" by blast
  then show "cv_char_count c =
      \<lparr> cc_headline = int (length (cv_headline c)), cc_body = int (length (cv_body c)) \<rparr>"
    by (rule CopyVariant_validate_synced)
qed

theorem char_count_recomputed_witness:
  "SegCraftResponse_validate strict_int ascii_version
     (response_json 1 [segment_json (of_str ''s1'')
        [copy_json (of_str ''ab'') (of_str ''xyz'') (counts_json 99 99)]])
     = Inr (validated_response 1 [validated_copy])
   \<and> map cv_char_count (concat (map so_copies (r_segments (validated_response 1 [validated_copy]))))
     = [\<lparr> cc_headline = int (length (of_str ''ab'')), cc_body = int (length (of_str ''xyz'')) \<rparr>]"
proof -
  have a: "SegCraftResponse_validate strict_int ascii_version
     (response_json 1 [segment_json (of_str ''s1'')
        [copy_json (of_str ''ab'') (of_str ''xyz'') (counts_json 99 99)]])
     = Inr (validated_response 1 [validated_copy])"
    by (simp add: schema_defs of_str_def)
  from char_count_recomputed [OF a]
  have "cv_char_count validated_copy =
      \<lparr> cc_headline = int (length (cv_headline validated_copy)),
        cc_body = int (length (cv_body validated_copy)) \<rparr>"
    by (simp add: validated_response_def)
  with a show ?thesis
    by (simp add: validated_response_def validated_copy_def)
qed

lemma v_int_ge_Inr_iff: "v_int_ge as_int lo v = Inr i \<longleftrightarrow> as_int v = Some i \<and> lo \<le> i"
  by (cases "as_int v") (auto simp: v_int_ge_def v_int_def fail_def)

lemma CharCount_validate_Inr:
  assumes "CharCount_validate as_int j = Inr cc"
  shows "\<exists>ccobj hv bv h b. j = JObj ccobj \<and>
     map_of ccobj (of_str ''headline'') = Some hv \<and> map_of ccobj (of_str ''body'') = Some bv \<and>
     as_int hv = Some h \<and> as_int bv = Some b \<and> 0 \<le> h \<and> 0 \<le> b"
  using assms
  by (auto simp: CharCount_validate_def v_model_Inr_iff ap_Inr_iff field_Inr_iff
      v_int_ge_Inr_iff)

lemma CopyVariant_validate_isl:
  assumes "\<not> (\<exists>ccobj hv bv h b.
       map_of cobj (of_str ''char_count'') = Some (JObj ccobj) \<and>
       map_of ccobj (of_str ''headline'') = Some hv \<and> map_of ccobj (of_str ''body'') = Some bv \<and>
       as_int hv = Some h \<and> as_int bv = Some b \<and> 0 \<le> h \<and> 0 \<le> b)"
  shows "isl (CopyVariant_validate as_int (JObj cobj))"
proof -
  have "isl (field (of_str ''char_count'') (CharCount_validate as_int) cobj)"
  proof (cases "map_of cobj (of_str ''char_count'')")
    case None
    then show ?thesis by (simp add: field_isl)
  next
    case (Some j)
    have "isl (CharCount_validate as_int j)"
    proof (cases "CharCount_validate as_int j")
      case (Inl es)
      then show ?thesis by simp
    next
      case (Inr cc)
      from CharCount_validate_Inr [OF Inr] Some assms show ?thesis by blast
    qed
    with Some show ?thesis by (simp add: field_isl)
  qed
  then have "isl (CopyVariant_fields as_int cobj)"
    by (simp add: CopyVariant_fields_def ap_isl)
  then show ?thesis
    by (cases "CopyVariant_fields as_int cobj")
      (simp_all add: CopyVariant_validate_def v_model_def then_apply_def)
qed

lemma SegmentOutput_validate_isl:
  assumes "map_of sobj (of_str ''copies'') = Some (JArr cps)" and "cj \<in> set cps"
    and "isl (CopyVariant_validate as_int cj)"
  shows "isl (SegmentOutput_validate as_int (JObj sobj))"
proof -
  have "isl (field (of_str ''copies'') (v_list (CopyVariant_validate as_int)) sobj)"
    using assms by (simp add: field_isl v_list_isl)
  then show ?thesis
    by (simp add: SegmentOutput_validate_def v_model_def ap_isl)
qed

lemma SegCraftResponse_validate_isl:
  assumes "map_of obj (of_str ''segments'') = Some (JArr segs)" and "sj \<in> set segs"
    and "isl (SegmentOutput_validate as_int sj)"
  shows "isl (SegCraftResponse_validate as_int version_ok (JObj obj))"
proof -
  have "isl (field (of_str ''segments'') (v_list (SegmentOutput_validate as_int)) obj)"
    using assms by (simp add: field_isl v_list_isl)
  then have "isl (SegCraftResponse_fields as_int version_ok obj)"
    by (simp add: SegCraftResponse_fields_def ap_isl)
  then show ?thesis
    by (cases "SegCraftResponse_fields as_int version_ok obj")
      (simp_all add: SegCraftResponse_validate_def v_model_def)
qed

text \<open>
  Claim C10. Take any copy variant of any segment of a payload. Unless its \<open>char_count\<close>
  is there and is an object whose \<open>headline\<close> and \<open>body\<close> entries are both non-negative
  integers, the copy variant is rejected and so is the whole payload. So a payload that
  omits \<open>char_count\<close>, or supplies a negative count, fails validation: the field is never
  filled in.
\<close>

theorem char_count_required:
  assumes "map_of obj (of_str ''segments'') = Some (JArr segs)"
    and "JObj sobj \<in> set segs"
    and "map_of sobj (of_str ''copies'') = Some (JArr cps)"
    and "JObj cobj \<in> set cps"
    and "\<not> (\<exists>ccobj hv bv h b.
           map_of cobj (of_str ''char_count'') = Some (JObj ccobj) \<and>
           map_of ccobj (of_str ''headline'') = Some hv \<and>
           map_of ccobj (of_str ''body'') = Some bv \<and>
           as_int hv = Some h \<and> as_int bv = Some b \<and> 0 \<le> h \<and> 0 \<le> b)"
  shows "(\<exists>es. CopyVariant_validate as_int (JObj cobj) = Inl es) \<and>
         (\<exists>es. SegCraftResponse_validate as_int version_ok (JObj obj) = Inl es)"
proof -
  have c: "isl (CopyVariant_validate as_int (JObj cobj))"
    by (rule CopyVariant_validate_isl [OF assms(5)])
  have "isl (SegmentOutput_validate as_int (JObj sobj))"
    by (rule SegmentOutput_validate_isl [OF assms(3,4) c])
  then have "isl (SegCraftResponse_validate as_int version_ok (JObj obj))"
    by (rule SegCraftResponse_validate_isl [OF assms(1,2)])
  with c show ?thesis by (auto simp: isl_def)
qed

theorem char_count_required_witness:
  "map_of (response_items 1 [segment_json (of_str ''s1'') [uncounted_copy]]) (of_str ''segments'')
     = Some (JArr [segment_json (of_str ''s1'') [uncounted_copy]])
   \<and> SegCraftResponse_validate strict_int ascii_version
       (response_json 1 [segment_json (of_str ''s1'') [uncounted_copy]])
     = Inl [([Key (of_str ''segments''), Index 0, Key (of_str ''copies''), Index 0,
              Key (of_str ''char_count'')], missing)]
   \<and> (\<exists>es. SegCraftResponse_validate strict_int ascii_version
         (response_json 1 [segment_json (of_str ''s1'') [uncounted_copy]]) = Inl es)
   \<and> SegCraftResponse_validate strict_int ascii_version
       (response_json 1 [segment_json (of_str ''s1'')
          [copy_json (of_str ''ab'') (of_str ''xyz'') (counts_json (- 1) 3)]])
     = Inl [([Key (of_str ''segments''), Index 0, Key (of_str ''copies''), Index 0,
              Key (of_str ''char_count''), Key (of_str ''headline'')], greater_than_equal 0)]
   \<and> (\<exists>es. SegCraftResponse_validate strict_int ascii_version
         (response_json 1 [segment_json (of_str ''s1'')
            [copy_json (of_str ''ab'') (of_str ''xyz'') (counts_json (- 1) 3)]]) = Inl es)"
proof -
  let ?texts = "[(of_str ''headline'', JStr (of_str ''ab'')), (of_str ''body'', JStr (of_str ''xyz'')),
       (of_str ''cta'', JStr (of_str ''go'')), (of_str ''rationale'', JStr (of_str ''why''))]"
  let ?sobj = "\<lambda>c. [(of_str ''segment_id'', JStr (of_str ''s1'')),
       (of_str ''segment_name'', JStr (of_str ''n'')),
       (of_str ''core_insight'', JStr (of_str ''c'')), (of_str ''trigger'', JStr (of_str ''t'')),
       (of_str ''angle'', JStr (of_str ''a'')), (of_str ''copies'', JArr [c]),
       (of_str ''differences_note'', JStr (of_str ''d''))]"
  have segs: "map_of (response_items 1 [segment_json (of_str ''s1'') [c]]) (of_str ''segments'')
      = Some (JArr [segment_json (of_str ''s1'') [c]])" for c
    by (simp add: response_items_def of_str_def)
  have seg: "JObj (?sobj c) \<in> set [segment_json (of_str ''s1'') [c]]" for c
    by (simp add: segment_json_def)
  have cps: "map_of (?sobj c) (of_str ''copies'') = Some (JArr [c])" for c
    by (simp add: of_str_def)
  have c1: "JObj ?texts \<in> set [uncounted_copy]"
    by (simp add: uncounted_copy_def copy_json_def)
  have c2: "JObj (?texts @ counts_json (- 1) 3)
      \<in> set [copy_json (of_str ''ab'') (of_str ''xyz'') (counts_json (- 1) 3)]"
    by (simp add: copy_json_def)
  have h1: "\<not> (\<exists>ccobj hv bv h b.
       map_of ?texts (of_str ''char_count'') = Some (JObj ccobj) \<and>
       map_of ccobj (of_str ''headline'') = Some hv \<and> map_of ccobj (of_str ''body'') = Some bv \<and>
       strict_int hv = Some h \<and> strict_int bv = Some b \<and> 0 \<le> h \<and> 0 \<le> b)"
    by (simp add: of_str_def)
  have h2: "\<not> (\<exists>ccobj hv bv h b.
       map_of (?texts @ counts_json (- 1) 3) (of_str ''char_count'') = Some (JObj ccobj) \<and>
       map_of ccobj (of_str ''headline'') = Some hv \<and> map_of ccobj (of_str ''body'') = Some bv \<and>
       strict_int hv = Some h \<and> strict_int bv = Some b \<and> 0 \<le> h \<and> 0 \<le> b)"
    by (auto simp: counts_json_def strict_int_def of_str_def)
  have d1: "\<exists>es. SegCraftResponse_validate strict_int ascii_version
      (response_json 1 [segment_json (of_str ''s1'') [uncounted_copy]]) = Inl es"
    unfolding response_json_def
    using char_count_required [OF segs seg cps c1 h1, of ascii_version]
    by (rule conjunct2)
  have d2: "\<exists>es. SegCraftResponse_validate strict_int ascii_version
      (response_json 1 [segment_json (of_str ''s1'')
         [copy_json (of_str ''ab'') (of_str ''xyz'') (counts_json (- 1) 3)]]) = Inl es"
    unfolding response_json_def
    using char_count_required [OF segs seg cps c2 h2, of ascii_version]
    by (rule conjunct2)
  have e: "SegCraftResponse_validate strict_int ascii_version
       (response_json 1 [segment_json (of_str ''s1'') [uncounted_copy]])
     = Inl [([Key (of_str ''segments''), Index 0, Key (of_str ''copies''), Index 0,
              Key (of_str ''char_count'')], missing)]"
    by (simp add: schema_defs of_str_def)
  have f: "SegCraftResponse_validate strict_int ascii_version
       (response_json 1 [segment_json (of_str ''s1'')
          [copy_json (of_str ''ab'') (of_str ''xyz'') (counts_json (- 1) 3)]])
     = Inl [([Key (of_str ''segments''), Index 0, Key (of_str ''copies''), Index 0,
              Key (of_str ''char_count''), Key (of_str ''headline'')], greater_than_equal 0)]"
    by (simp add: schema_defs of_str_def)
  from segs [of uncounted_copy] d1 d2 e f show ?thesis by blast
qed

section \<open>Verification: the orchestrator\<close>

named_theorems llm_defs

declare run_generation_def [llm_defs]
declare mock_generation_def [llm_defs]
declare live_generation_def [llm_defs]
declare load_mock_output_def [llm_defs]
declare mock_file_name_def [llm_defs]
declare repair_json_def [llm_defs]
declare generate_def [llm_defs]
declare parse_and_validate_def [llm_defs]
declare extract_first_json_object_def [llm_defs]
declare unfence_def [llm_defs]
declare find_char_def [llm_defs]
declare strip_char_def [llm_defs]
declare model_of_def [llm_defs]
declare get_client_def [llm_defs]
declare get_default_def [llm_defs]
declare loads_table_def [llm_defs]
declare live_env_def [llm_defs]
declare mock_env_def [llm_defs]
declare both_samples_def [llm_defs]
declare no_samples_def [llm_defs]
declare two_bad_answers_def [llm_defs]
declare first_request_def [llm_defs]
declare repair_request_def [llm_defs]
declare boundary_text_def [llm_defs]
declare boundary_object_def [llm_defs]
declare Let_def [llm_defs]

subsection \<open>Extraction\<close>

text \<open>
  Claim C5. For the model output \<open>prefix text {"a": {"b": "}"}} trailing\<close>, which is not
  itself a JSON document, the extractor returns \<open>{"a": {"b": "}"}}\<close>. In the scan, a
  closing brace met inside a string is passed over with the depth unchanged, and a
  backslash followed by a quote is passed over with \<open>in_string\<close> unchanged.
\<close>

theorem extract_boundary:
  assumes "json_loads boundary_text = Inl m"
  shows "extract_first_json_object json_loads boundary_text = Inr boundary_object \<and>
     scan (125 # rest) index depth True False = scan rest (Suc index) depth True False \<and>
     scan (92 # 34 # rest) index depth in_string False
       = scan rest (Suc (Suc index)) depth in_string False"
proof -
  have u: "unfence boundary_text = boundary_text"
    by (simp add: unfence_def boundary_text_def str_defs)
  have f: "find_char 123 boundary_text = Some 12"
    by (simp add: find_char_def boundary_text_def of_str_def)
  have s: "scan (drop 12 boundary_text) 12 0 False False = Some 28"
    by (simp add: boundary_text_def of_str_def)
  have t: "take 17 (drop 12 boundary_text) = boundary_object"
    by (simp add: boundary_text_def boundary_object_def of_str_def)
  have "extract_first_json_object json_loads boundary_text = Inr boundary_object"
    using assms by (simp add: extract_first_json_object_def u f s t)
  then show ?thesis by simp
qed

theorem extract_boundary_witness:
  "loads_table [] boundary_text = Inl (of_str ''Expecting value'') \<and>
   extract_first_json_object (loads_table []) boundary_text = Inr boundary_object"
proof -
  have a: "loads_table [] boundary_text = Inl (of_str ''Expecting value'')"
    by (simp add: loads_table_def)
  from extract_boundary [of "loads_table []", OF a] a show ?thesis by simp
qed

subsection \<open>The live path\<close>

lemma extract_error_caught:
  "extract_first_json_object json_loads raw_text = Inl err \<Longrightarrow> caught err"
  by (auto simp: extract_first_json_object_def Let_def split: sum.splits option.splits)

lemma parse_and_validate_caught: "parse_and_validate e raw_text = Inl err \<Longrightarrow> caught err"
  by (auto simp: parse_and_validate_def split: sum.splits dest: extract_error_caught)

lemma generate_calls:
  "generate e prompt_text model_name calls = (Inr raw_text, calls1) \<Longrightarrow>
     calls1 = calls @ [\<lparr> rq_model = model_of e model_name, rq_input = Prompt prompt_text,
                         rq_temperature = 35 \<rparr>]"
  by (auto simp: generate_def Let_def split: sum.splits option.splits if_splits)

lemma repair_json_calls:
  "repair_json e raw_text err model_name calls1 = (Inr fixed, calls2) \<Longrightarrow>
     calls2 = calls1 @ [\<lparr> rq_model = model_of e model_name,
                          rq_input = RepairPrompt err raw_text, rq_temperature = 0 \<rparr>]"
  by (auto simp: repair_json_def Let_def split: sum.splits option.splits if_splits)

text \<open>
  Claim C3. In a live generation (mock mode is not forced and a client is configured),
  let the first call return a text that fails extraction or validation with \<open>err1\<close>, and
  let the repair call return a text that fails with \<open>err2\<close>. Then the orchestrator ends
  with one \<open>LLMValidationError\<close> whose message carries \<open>err2\<close>, and the requests made are
  exactly two: the generation request and the repair request.
\<close>

theorem repair_is_tried_once:
  assumes "\<not> force_mock" and "get_client e = Inr (Some cl)"
    and "generate e prompt_text model_name calls = (Inr raw_text, calls1)"
    and "parse_and_validate e raw_text = Inl err1"
    and "repair_json e raw_text err1 model_name calls1 = (Inr repaired_raw, calls2)"
    and "parse_and_validate e repaired_raw = Inl err2"
  shows "run_generation e prompt_text format_id model_name samples_dir force_mock calls
       = (Inl (LLMValidationError (RepairFailed err2)), calls2) \<and>
     calls2 = calls @
       [\<lparr> rq_model = model_of e model_name, rq_input = Prompt prompt_text, rq_temperature = 35 \<rparr>,
        \<lparr> rq_model = model_of e model_name, rq_input = RepairPrompt err1 raw_text,
          rq_temperature = 0 \<rparr>] \<and>
     length calls2 = length calls + 2"
proof -
  have c1: "caught err1" and c2: "caught err2"
    using assms(4,6) by (auto dest: parse_and_validate_caught)
  have "run_generation e prompt_text format_id model_name samples_dir force_mock calls
      = live_generation e prompt_text model_name calls"
    using assms(1,2) by (simp add: run_generation_def)
  also have "\<dots> = (Inl (LLMValidationError (RepairFailed err2)), calls2)"
    using assms(3-6) c1 c2 by (simp add: live_generation_def)
  finally have r: "run_generation e prompt_text format_id model_name samples_dir force_mock calls
      = (Inl (LLMValidationError (RepairFailed err2)), calls2)" .
  have "calls2 = calls @
       [\<lparr> rq_model = model_of e model_name, rq_input = Prompt prompt_text, rq_temperature = 35 \<rparr>,
        \<lparr> rq_model = model_of e model_name, rq_input = RepairPrompt err1 raw_text,
          rq_temperature = 0 \<rparr>]"
    using generate_calls [OF assms(3)] repair_json_calls [OF assms(5)] by simp
  with r show ?thesis by simp
qed

lemma sample_get_client:
  "get_client (live_env two_bad_answers) = Inr (Some (OpenAI (of_str ''sk-test'')))"
  by (simp add: get_client_def live_env_def str_defs)

lemma sample_generate:
  "generate (live_env two_bad_answers) (of_str ''write'') None []
     = (Inr (of_str ''no json here''), [first_request])"
  by (simp add: llm_defs str_defs)

lemma sample_first_parse:
  "parse_and_validate (live_env two_bad_answers) (of_str ''no json here'')
     = Inl (LLMValidationError NoJsonObject)"
  by (simp add: llm_defs str_defs)

lemma sample_repair:
  "repair_json (live_env two_bad_answers) (of_str ''no json here'')
     (LLMValidationError NoJsonObject) None [first_request]
     = (Inr (of_str ''{ \"a\": 1''), [first_request, repair_request])"
  by (simp add: llm_defs str_defs)

lemma sample_second_parse:
  "parse_and_validate (live_env two_bad_answers) (of_str ''{ \"a\": 1'')
     = Inl (LLMValidationError IncompleteJson)"
  by (simp add: llm_defs str_defs)

theorem repair_is_tried_once_witness:
  "get_client (live_env two_bad_answers) = Inr (Some (OpenAI (of_str ''sk-test'')))
   \<and> generate (live_env two_bad_answers) (of_str ''write'') None []
       = (Inr (of_str ''no json here''), [first_request])
   \<and> parse_and_validate (live_env two_bad_answers) (of_str ''no json here'')
       = Inl (LLMValidationError NoJsonObject)
   \<and> repair_json (live_env two_bad_answers) (of_str ''no json here'')
       (LLMValidationError NoJsonObject) None [first_request]
       = (Inr (of_str ''{ \"a\": 1''), [first_request, repair_request])
   \<and> parse_and_validate (live_env two_bad_answers) (of_str ''{ \"a\": 1'')
       = Inl (LLMValidationError IncompleteJson)
   \<and> run_generation (live_env two_bad_answers) (of_str ''write'') (of_str ''f1'') None
       (of_str ''samples'') False []
       = (Inl (LLMValidationError (RepairFailed (LLMValidationError IncompleteJson))),
          [first_request, repair_request])"
proof -
  have n: "\<not> False" by simp
  from repair_is_tried_once [OF n sample_get_client sample_generate sample_first_parse
      sample_repair sample_second_parse, of "of_str ''f1''" "of_str ''samples''"]
  have "run_generation (live_env two_bad_answers) (of_str ''write'') (of_str ''f1'') None
       (of_str ''samples'') False []
       = (Inl (LLMValidationError (RepairFailed (LLMValidationError IncompleteJson))),
          [first_request, repair_request])"
    by blast
  with sample_get_client sample_generate sample_first_parse sample_repair sample_second_parse
  show ?thesis by blast
qed

subsection \<open>The mock path\<close>

lemma mock_branch:
  assumes "force_mock \<or> get_client e = Inr None"
  shows "run_generation e prompt_text format_id model_name samples_dir force_mock calls
     = mock_generation e format_id samples_dir calls"
  using assms by (auto simp: run_generation_def)

text \<open>
  Claim C4, as the code has it. When mock mode is forced or no client is configured, the
  orchestrator sends no request. It reads the sample file that the format id selects
  (\<open>sample_output_1.json\<close> for \<open>yadirect_text\<close>, \<open>sample_output_2.json\<close> for every other
  id): when the file is there, decodes and validates, the result is the validated sample
  with the mode \<open>mock\<close> and an empty raw text; when the file is not there, the result is
  the client error that names it.
\<close>

theorem mock_generation_returns_sample:
  assumes "force_mock \<or> get_client e = Inr None"
  shows "snd (run_generation e prompt_text format_id model_name samples_dir force_mock calls)
       = calls \<and>
     (\<forall>text data r.
        e_files e (samples_dir,
          if format_id = of_str ''yadirect_text'' then of_str ''sample_output_1.json''
          else of_str ''sample_output_2.json'') = Some text \<and>
        e_json_loads e text = Inr data \<and>
        SegCraftResponse_validate (e_as_int e) (e_version_ok e) data = Inr r \<longrightarrow>
        run_generation e prompt_text format_id model_name samples_dir force_mock calls
          = (Inr (r, of_str ''mock'', []), calls)) \<and>
     (e_files e (samples_dir,
          if format_id = of_str ''yadirect_text'' then of_str ''sample_output_1.json''
          else of_str ''sample_output_2.json'') = None \<longrightarrow>
        run_generation e prompt_text format_id model_name samples_dir force_mock calls
          = (Inl (LLMClientError (MockFileMissing samples_dir
               (if format_id = of_str ''yadirect_text'' then of_str ''sample_output_1.json''
                else of_str ''sample_output_2.json''))), calls))"
proof -
  note run = mock_branch [OF assms, of prompt_text format_id model_name samples_dir calls]
  have a: "snd (run_generation e prompt_text format_id model_name samples_dir force_mock calls)
       = calls"
    unfolding run by (simp add: mock_generation_def split: sum.splits)
  have b: "run_generation e prompt_text format_id model_name samples_dir force_mock calls
          = (Inr (r, of_str ''mock'', []), calls)"
    if "e_files e (samples_dir,
          if format_id = of_str ''yadirect_text'' then of_str ''sample_output_1.json''
          else of_str ''sample_output_2.json'') = Some content"
      and "e_json_loads e content = Inr data"
      and "SegCraftResponse_validate (e_as_int e) (e_version_ok e) data = Inr r"
    for content data r
    unfolding run using that
    by (simp add: mock_generation_def load_mock_output_def mock_file_name_def Let_def)
  have c: "run_generation e prompt_text format_id model_name samples_dir force_mock calls
          = (Inl (LLMClientError (MockFileMissing samples_dir
               (if format_id = of_str ''yadirect_text'' then of_str ''sample_output_1.json''
                else of_str ''sample_output_2.json''))), calls)"
    if "e_files e (samples_dir,
          if format_id = of_str ''yadirect_text'' then of_str ''sample_output_1.json''
          else of_str ''sample_output_2.json'') = None"
    unfolding run using that
    by (simp add: mock_generation_def load_mock_output_def mock_file_name_def Let_def)
  from a b c show ?thesis by blast
qed

lemma sample_no_client: "get_client (mock_env both_samples) = Inr None"
  by (simp add: get_client_def mock_env_def str_defs)

lemma sample_file_one:
  "e_files (mock_env both_samples)
     (of_str ''samples'',
      if of_str ''yadirect_text'' = of_str ''yadirect_text'' then of_str ''sample_output_1.json''
      else of_str ''sample_output_2.json'') = Some (of_str ''document 1'')"
  by (simp add: mock_env_def both_samples_def)

lemma sample_loads_one:
  "e_json_loads (mock_env both_samples) (of_str ''document 1'')
     = Inr (sample_document (of_str ''one''))"
  by (simp add: mock_env_def loads_table_def)

lemma sample_validates:
  "SegCraftResponse_validate (e_as_int (mock_env both_samples))
     (e_version_ok (mock_env both_samples)) (sample_document sid) = Inr (validated_sample sid)"
  by (simp add: mock_env_def sample_document_def validated_sample_def schema_defs of_str_def)

theorem mock_generation_returns_sample_witness:
  "get_client (mock_env both_samples) = Inr None
   \<and> e_files (mock_env both_samples)
       (of_str ''samples'',
        if of_str ''yadirect_text'' = of_str ''yadirect_text'' then of_str ''sample_output_1.json''
        else of_str ''sample_output_2.json'') = Some (of_str ''document 1'')
   \<and> e_json_loads (mock_env both_samples) (of_str ''document 1'')
       = Inr (sample_document (of_str ''one''))
   \<and> SegCraftResponse_validate (e_as_int (mock_env both_samples))
       (e_version_ok (mock_env both_samples)) (sample_document (of_str ''one''))
       = Inr (validated_sample (of_str ''one''))
   \<and> run_generation (mock_env both_samples) (of_str ''write'') (of_str ''yadirect_text'') None
       (of_str ''samples'') False []
       = (Inr (validated_sample (of_str ''one''), of_str ''mock'', []), [])"
proof -
  have m: "False \<or> get_client (mock_env both_samples) = Inr None"
    using sample_no_client by simp
  from mock_generation_returns_sample [OF m, of "of_str ''write''" "of_str ''yadirect_text''"
      None "of_str ''samples''" "[]"]
    sample_file_one sample_loads_one sample_validates [of "of_str ''one''"]
  have "run_generation (mock_env both_samples) (of_str ''write'') (of_str ''yadirect_text'') None
       (of_str ''samples'') False []
       = (Inr (validated_sample (of_str ''one''), of_str ''mock'', []), [])"
    by blast
  with sample_no_client sample_file_one sample_loads_one sample_validates [of "of_str ''one''"]
  show ?thesis by blast
qed

text \<open>
  Claim C4, as the spec states it, fails when the sample is not stored: with mock mode
  forced and an empty samples directory the orchestrator returns no result tagged
  \<open>mock\<close>; it fails with the client error for the missing file.
\<close>

theorem mock_generation_missing_file_counterexample:
  "run_generation (mock_env no_samples) (of_str ''write'') (of_str ''yadirect_text'') None
     (of_str ''samples'') True []
   = (Inl (LLMClientError
        (MockFileMissing (of_str ''samples'') (of_str ''sample_output_1.json''))), [])"
  by (simp add: run_generation_def mock_generation_def load_mock_output_def mock_file_name_def
      mock_env_def no_samples_def)

end
